theory Spec2Isabelle
  imports Complex_Main "HOL-Library.AList"
begin

section \<open>Perfume Tracker: scores, summaries, derived state, filter, sort, reference tables\<close>

text \<open>
  A shallow embedding of \<^verbatim>\<open>src/perfume_tracker.py\<close>. Python values are modelled as
  follows.
  \<^item> \<^verbatim>\<open>str\<close> is \<open>string\<close>; the app's keys and labels are ASCII. The one non-ASCII
    literal, the dash of the "no data" marker, is kept as its three UTF-8 bytes.
  \<^item> \<^verbatim>\<open>Dict[str, int]\<close> (a vote tally) and the id-to-value tables are association
    lists in insertion order with \<open>map_of\<close> as lookup; a \<^verbatim>\<open>dict\<close> has unique keys.
  \<^item> \<^verbatim>\<open>int\<close> is \<open>int\<close>. \<^verbatim>\<open>float\<close> is \<open>rat\<close>: the floats of the functions below are
    quotients, negations and sums of the integers and bounds they are given. The model
    computes them exactly, where Python rounds each result to the nearest double; the
    properties proved below compare a score with 0, with the integers 1 to N and with the
    bounds of a filter, or evaluate it at small numbers.
  \<^item> An exception is a value \<open>Inl e\<close> of the result type.
\<close>

subsection \<open>Configuration constants\<close>

definition RATING_5 :: "string list" where
  "RATING_5 = [''love'', ''like'', ''ok'', ''dislike'', ''hate'']"

definition SEASON_TIME_6 :: "string list" where
  "SEASON_TIME_6 = [''spring'', ''summer'', ''fall'', ''winter'', ''day'', ''night'']"

definition LONGEVITY_5 :: "string list" where
  "LONGEVITY_5 = [''eternal'', ''long'', ''moderate'', ''weak'', ''poor'']"

definition SILLAGE_4 :: "string list" where
  "SILLAGE_4 = [''enormous'', ''strong'', ''moderate'', ''intimate'']"

definition GENDER_5 :: "string list" where
  "GENDER_5 = [''male'', ''more_male'', ''unisex'', ''more_female'', ''female'']"

definition VALUE_5 :: "string list" where
  "VALUE_5 = [''excellent'', ''good'', ''fair'', ''expensive'', ''overpriced'']"

text \<open>The marker the summaries return for "no data": U+2014 in UTF-8.\<close>

definition NO_DATA :: string where
  "NO_DATA = [CHR 0xE2, CHR 0x80, CHR 0x94]"

subsection \<open>Python helpers\<close>

datatype error = IndexError | KeyError | ValueError

type_synonym votes = "(string \<times> int) list"

text \<open>\<^verbatim>\<open>int(votes.get(k, 0) or 0)\<close>: the stored count, 0 for an absent key.\<close>

definition vote_count :: "votes \<Rightarrow> string \<Rightarrow> int" where
  "vote_count votes k = (case map_of votes k of None \<Rightarrow> 0 | Some v \<Rightarrow> v)"

text \<open>\<^verbatim>\<open>votes.values()\<close>: one value per key.\<close>

definition dict_values :: "('k \<times> 'v) list \<Rightarrow> 'v list" where
  "dict_values d = map snd (AList.clearjunk d)"

text \<open>
  A dict display or comprehension inserts its pairs from left to right, so a later pair
  with the same key replaces an earlier one.
\<close>

definition dict_of :: "('k \<times> 'v) list \<Rightarrow> 'k \<rightharpoonup> 'v" where
  "dict_of kvs = map_of (rev kvs)"

text \<open>\<^verbatim>\<open>{keys[i]: i+1 for i in range(len(keys))}\<close>\<close>

definition index_weights :: "string list \<Rightarrow> string \<rightharpoonup> int" where
  "index_weights keys = dict_of (map (\<lambda>i. (keys ! i, int i + 1)) [0..<length keys])"

text \<open>\<^verbatim>\<open>weights[k]\<close>, which raises KeyError on a missing key.\<close>

definition weight_lookup :: "(string \<rightharpoonup> int) \<Rightarrow> string \<Rightarrow> error + int" where
  "weight_lookup weights k = (case weights k of None \<Rightarrow> Inl KeyError | Some w \<Rightarrow> Inr w)"

text \<open>
  \<^verbatim>\<open>sum(int(votes.get(k, 0) or 0) * weights[k] for k in keys)\<close>: the first key without a
  weight raises.
\<close>

fun weighted_sum :: "votes \<Rightarrow> (string \<rightharpoonup> int) \<Rightarrow> string list \<Rightarrow> error + int" where
  "weighted_sum votes weights [] = Inr 0"
| "weighted_sum votes weights (k # ks) =
     (case weight_lookup weights k of
        Inl e \<Rightarrow> Inl e
      | Inr w \<Rightarrow>
          (case weighted_sum votes weights ks of
             Inl e \<Rightarrow> Inl e
           | Inr s \<Rightarrow> Inr (vote_count votes k * w + s)))"

definition total_votes :: "votes \<Rightarrow> string list \<Rightarrow> int" where
  "total_votes votes keys = sum_list (map (vote_count votes) keys)"

text \<open>\<^verbatim>\<open>key.replace("_", " ")\<close>\<close>

definition display_label :: "string \<Rightarrow> string" where
  "display_label key = map (\<lambda>c. if c = CHR ''_'' then CHR '' '' else c) key"

text \<open>\<^verbatim>\<open>sep.join(xs)\<close>\<close>

fun join :: "string \<Rightarrow> string list \<Rightarrow> string" where
  "join sep [] = []"
| "join sep [x] = x"
| "join sep (x # y # ys) = x @ sep @ join sep (y # ys)"

text \<open>
  \<^verbatim>\<open>round(x)\<close> to an integer: to the nearest, a tie to the even neighbour.
\<close>

definition py_round :: "rat \<Rightarrow> int" where
  "py_round x =
     (let f = \<lfloor>x\<rfloor>; d = x - of_int f
      in if d < 1 / 2 then f
         else if 1 / 2 < d then f + 1
         else if even f then f else f + 1)"

subsection \<open>Score calculations (for sorting and filtering)\<close>

text \<open>
  \<^verbatim>\<open>calculate_rating_score\<close>. The weights are \<^verbatim>\<open>{keys[0]: 5, ..., keys[4]: 1}\<close>: fewer
  than five keys raise IndexError, a sixth key has no weight.
\<close>

definition rating_weights :: "string list \<Rightarrow> string \<rightharpoonup> int" where
  "rating_weights keys =
     dict_of [(keys ! 0, 5), (keys ! 1, 4), (keys ! 2, 3), (keys ! 3, 2), (keys ! 4, 1)]"

definition calculate_rating_score :: "votes \<Rightarrow> string list \<Rightarrow> error + rat" where
  "calculate_rating_score votes keys =
     (let total = total_votes votes keys
      in if total = 0 then Inr 0
         else if length keys < 5 then Inl IndexError
         else (case weighted_sum votes (rating_weights keys) keys of
                 Inl e \<Rightarrow> Inl e
               | Inr ws \<Rightarrow> Inr (of_int ws / of_int total)))"

definition calculate_longevity_score :: "votes \<Rightarrow> string list \<Rightarrow> error + rat" where
  "calculate_longevity_score votes keys =
     (let total = total_votes votes keys
      in if total = 0 then Inr 0
         else (case weighted_sum votes (index_weights keys) keys of
                 Inl e \<Rightarrow> Inl e
               | Inr ws \<Rightarrow> Inr (of_int ws / of_int total)))"

definition calculate_sillage_score :: "votes \<Rightarrow> string list \<Rightarrow> error + rat" where
  "calculate_sillage_score votes keys =
     (let total = total_votes votes keys
      in if total = 0 then Inr 0
         else (case weighted_sum votes (index_weights keys) keys of
                 Inl e \<Rightarrow> Inl e
               | Inr ws \<Rightarrow> Inr (of_int ws / of_int total)))"

definition calculate_gender_score :: "votes \<Rightarrow> string list \<Rightarrow> error + rat" where
  "calculate_gender_score votes keys =
     (let total = total_votes votes keys
      in if total = 0 then Inr 0
         else (case weighted_sum votes (index_weights keys) keys of
                 Inl e \<Rightarrow> Inl e
               | Inr ws \<Rightarrow> Inr (of_int ws / of_int total)))"

definition calculate_value_score :: "votes \<Rightarrow> string list \<Rightarrow> error + rat" where
  "calculate_value_score votes keys =
     (let total = total_votes votes keys
      in if total = 0 then Inr 0
         else (case weighted_sum votes (index_weights keys) keys of
                 Inl e \<Rightarrow> Inl e
               | Inr ws \<Rightarrow> Inr (of_int ws / of_int total)))"

subsection \<open>Vote summary calculations\<close>

text \<open>
  The summaries print a float with \<^verbatim>\<open>f"{score:.2f}"\<close>. The formatter is Python's own;
  it is the parameter \<open>fmt_2f\<close> here.
\<close>

definition calculate_rating_summary ::
  "(rat \<Rightarrow> string) \<Rightarrow> votes \<Rightarrow> string list \<Rightarrow> error + string" where
  "calculate_rating_summary fmt_2f votes keys =
     (let total = total_votes votes keys
      in if total = 0 then Inr NO_DATA
         else if length keys < 5 then Inl IndexError
         else (case weighted_sum votes (rating_weights keys) keys of
                 Inl e \<Rightarrow> Inl e
               | Inr ws \<Rightarrow> Inr (fmt_2f (of_int ws / of_int total))))"

text \<open>
  \<^verbatim>\<open>calculate_when_summary\<close>. \<^verbatim>\<open>max(...)\<close> of no keys raises ValueError. The threshold
  \<^verbatim>\<open>max_votes * 0.6\<close> is compared with integer counts only.
\<close>

definition all_seasons :: "string list" where
  "all_seasons = [''spring'', ''summer'', ''fall'', ''winter'']"

definition season_part :: "string list \<Rightarrow> error + string list" where
  "season_part seasons =
     (if length seasons = 4 then Inr [''year-round'']
      else if length seasons = 3 then
        (case filter (\<lambda>s. s \<notin> set seasons) all_seasons of
           [] \<Rightarrow> Inl IndexError
         | missing # _ \<Rightarrow> Inr [''except '' @ display_label missing])
      else if seasons \<noteq> [] then Inr [join '', '' (map display_label seasons)]
      else Inr [])"

definition time_part :: "string list \<Rightarrow> string list" where
  "time_part time_opts =
     (if length time_opts = 2 then [''anytime'']
      else if time_opts \<noteq> [] then [join '', '' (map display_label time_opts)]
      else [])"

definition calculate_when_summary :: "votes \<Rightarrow> string list \<Rightarrow> error + string" where
  "calculate_when_summary votes keys =
     (if votes = [] \<or> list_all (\<lambda>v. v = 0) (dict_values votes) then Inr NO_DATA
      else (case map (vote_count votes) keys of
              [] \<Rightarrow> Inl ValueError
            | c # cs \<Rightarrow>
                (let max_votes = fold max cs c
                 in if max_votes = 0 then Inr NO_DATA
                    else
                      (let threshold = of_int max_votes * (6 / 10 :: rat);
                           top_options = filter (\<lambda>k. threshold \<le> of_int (vote_count votes k)) keys
                       in if top_options = [] then Inr NO_DATA
                          else
                            (let seasons = filter (\<lambda>opt. opt \<in> set all_seasons) top_options;
                                 time_opts = filter (\<lambda>opt. opt \<in> set [''day'', ''night'']) top_options
                             in (case season_part seasons of
                                   Inl e \<Rightarrow> Inl e
                                 | Inr sp \<Rightarrow>
                                     (let parts = sp @ time_part time_opts
                                      in Inr (if parts \<noteq> [] then join '' | '' parts
                                              else NO_DATA))))))))"

definition calculate_longevity_summary ::
  "(rat \<Rightarrow> string) \<Rightarrow> votes \<Rightarrow> string list \<Rightarrow> error + string" where
  "calculate_longevity_summary fmt_2f votes keys =
     (let total = total_votes votes keys
      in if total = 0 then Inr NO_DATA
         else (case weighted_sum votes (index_weights keys) keys of
                 Inl e \<Rightarrow> Inl e
               | Inr ws \<Rightarrow> Inr (fmt_2f (of_int ws / of_int total))))"

definition calculate_sillage_summary ::
  "(rat \<Rightarrow> string) \<Rightarrow> votes \<Rightarrow> string list \<Rightarrow> error + string" where
  "calculate_sillage_summary fmt_2f votes keys =
     (let total = total_votes votes keys
      in if total = 0 then Inr NO_DATA
         else (case weighted_sum votes (index_weights keys) keys of
                 Inl e \<Rightarrow> Inl e
               | Inr ws \<Rightarrow> Inr (fmt_2f (of_int ws / of_int total))))"

text \<open>
  \<^verbatim>\<open>index = max(0, min(len(keys)-1, round(score - 1)))\<close>, then \<^verbatim>\<open>keys[index]\<close>; the
  total is not 0 here, so there is a key.
\<close>

definition nearest_option :: "string list \<Rightarrow> rat \<Rightarrow> string" where
  "nearest_option keys score =
     display_label (keys ! nat (max 0 (min (int (length keys) - 1) (py_round (score - 1)))))"

definition calculate_gender_summary :: "votes \<Rightarrow> string list \<Rightarrow> error + string" where
  "calculate_gender_summary votes keys =
     (let total = total_votes votes keys
      in if total = 0 then Inr NO_DATA
         else (case weighted_sum votes (index_weights keys) keys of
                 Inl e \<Rightarrow> Inl e
               | Inr ws \<Rightarrow> Inr (nearest_option keys (of_int ws / of_int total))))"

definition calculate_value_summary :: "votes \<Rightarrow> string list \<Rightarrow> error + string" where
  "calculate_value_summary votes keys =
     (let total = total_votes votes keys
      in if total = 0 then Inr NO_DATA
         else (case weighted_sum votes (index_weights keys) keys of
                 Inl e \<Rightarrow> Inl e
               | Inr ws \<Rightarrow> Inr (nearest_option keys (of_int ws / of_int total))))"

subsection \<open>Data model\<close>

record event =
  ev_id :: string
  ev_perfume_id :: string
  event_type :: string
  timestamp :: string
  location :: string
  ml_delta :: "rat option"
  price :: "rat option"
  purchase_type :: string
  purchase_type_id :: string
  ev_note :: string
  event_date :: string

record note_rec =
  note_id :: string
  note_title :: string
  note_content :: string
  note_created_at :: int

text \<open>
  The values of \<^verbatim>\<open>Perfume.fragrantica\<close> and \<^verbatim>\<open>Perfume.my_votes\<close>: a vote block under a
  key such as \<^verbatim>\<open>"rating_votes"\<close>, a string under \<^verbatim>\<open>"url"\<close> and \<^verbatim>\<open>"source"\<close>, an integer
  under \<^verbatim>\<open>"last_updated"\<close>.
\<close>

datatype fr_value = Block votes | Text string | Stamp int

record perfume =
  p_id :: string
  p_name :: string
  brand_id :: string
  concentration_id :: string
  outlet_ids :: "string list"
  tag_ids :: "string list"
  created_at :: int
  updated_at :: int
  events :: "event list"
  p_notes :: "note_rec list"
  links :: "(string \<times> string) list list"
  fragrantica :: "(string \<times> fr_value) list"
  my_votes :: "(string \<times> fr_value) list"

record outlet_info =
  outlet_name :: string
  region :: string

record app_data =
  perfumes :: "perfume list"
  brands_map :: "(string \<times> string) list"
  concentrations_map :: "(string \<times> string) list"
  outlets_map :: "(string \<times> outlet_info) list"
  tags_map :: "(string \<times> string) list"
  purchase_types_map :: "(string \<times> string) list"

record sort_config =
  dimensions :: "(string \<times> string) list"

record filter_config =
  brands :: "string list"
  states :: "string list"
  seasons :: "string list"
  times_sel :: "string list"
  rating_min :: rat
  rating_max :: rat
  rating_exclude :: bool
  longevity_min :: rat
  longevity_max :: rat
  longevity_exclude :: bool
  sillage_min :: rat
  sillage_max :: rat
  sillage_exclude :: bool
  value_min :: rat
  value_max :: rat
  value_exclude :: bool
  gender_preference :: "string list"
  tags :: "string list"
  tags_logic :: string
  has_my_vote :: bool
  has_fragrantica :: bool

text \<open>The field defaults of \<^verbatim>\<open>FilterConfig\<close>.\<close>

definition default_filter :: filter_config where
  "default_filter =
     \<lparr>brands = [], states = [], seasons = [], times_sel = [],
      rating_min = 0, rating_max = 5, rating_exclude = False,
      longevity_min = 0, longevity_max = 5, longevity_exclude = False,
      sillage_min = 0, sillage_max = 4, sillage_exclude = False,
      value_min = 0, value_max = 5, value_exclude = False,
      gender_preference = [], tags = [], tags_logic = ''or'',
      has_my_vote = False, has_fragrantica = False\<rparr>"

subsection \<open>String helpers\<close>

text \<open>\<^verbatim>\<open>s.lower()\<close> on ASCII.\<close>

definition char_lower :: "char \<Rightarrow> char" where
  "char_lower c =
     (let n = (of_char c :: nat) in if 65 \<le> n \<and> n \<le> 90 then char_of (n + 32) else c)"

definition lower :: "string \<Rightarrow> string" where
  "lower s = map char_lower s"

fun starts_with :: "string \<Rightarrow> string \<Rightarrow> bool" where
  "starts_with s [] = True"
| "starts_with [] (x # xs) = False"
| "starts_with (c # cs) (x # xs) = (c = x \<and> starts_with cs xs)"

text \<open>\<^verbatim>\<open>sub in s\<close> for strings.\<close>

fun str_in :: "string \<Rightarrow> string \<Rightarrow> bool" where
  "str_in sub [] = (sub = [])"
| "str_in sub (c # cs) = (starts_with (c # cs) sub \<or> str_in sub cs)"

text \<open>\<^verbatim>\<open>s.strip()\<close> on ASCII white space.\<close>

definition is_space :: "char \<Rightarrow> bool" where
  "is_space c = (let n = (of_char c :: nat) in (9 \<le> n \<and> n \<le> 13) \<or> (28 \<le> n \<and> n \<le> 32))"

definition strip :: "string \<Rightarrow> string" where
  "strip s = rev (dropWhile is_space (rev (dropWhile is_space s)))"

text \<open>\<^verbatim>\<open>str(n)\<close> for a count.\<close>

function str_of_nat :: "nat \<Rightarrow> string" where
  "str_of_nat n =
     (if n < 10 then [char_of (48 + n)] else str_of_nat (n div 10) @ [char_of (48 + n mod 10)])"
  by pat_completeness auto
termination
  by (relation "measure (\<lambda>n. n)") auto

declare str_of_nat.simps [simp del]

text \<open>\<^verbatim>\<open>s < t\<close> for strings: by code point, a proper prefix first.\<close>

fun str_lt :: "string \<Rightarrow> string \<Rightarrow> bool" where
  "str_lt [] [] = False"
| "str_lt [] (y # ys) = True"
| "str_lt (x # xs) [] = False"
| "str_lt (x # xs) (y # ys) =
     (if x = y then str_lt xs ys else (of_char x :: nat) < of_char y)"

text \<open>\<^verbatim>\<open>list(dict.fromkeys(xs))\<close>: each key is inserted when it is first seen.\<close>

definition fromkeys :: "'a list \<Rightarrow> 'a list" where
  "fromkeys xs = fold (\<lambda>x acc. if x \<in> set acc then acc else acc @ [x]) xs []"

subsection \<open>Derived state (event-driven)\<close>

text \<open>
  \<^verbatim>\<open>derive_state\<close>. The volume is printed with \<^verbatim>\<open>f"{owned_ml:g}"\<close>, Python's own
  formatter, the parameter \<open>fmt_g\<close> here.
\<close>

definition derive_state ::
  "(rat \<Rightarrow> string) \<Rightarrow> perfume \<Rightarrow> string list option \<Rightarrow> string \<times> rat" where
  "derive_state fmt_g p tag_names =
     (let tested = list_ex (\<lambda>e. event_type e \<in> set [''smell'', ''skin'']) (events p);
          on_skin = list_ex (\<lambda>e. event_type e = ''skin'') (events p);
          owned_ml = fold (\<lambda>e acc. case ml_delta e of None \<Rightarrow> acc | Some d \<Rightarrow> acc + d)
                       (events p) 0;
          tags_to_check = (case tag_names of None \<Rightarrow> [] | Some ts \<Rightarrow> ts);
          want = (''want'' \<in> set (map lower tags_to_check)
                  \<or> list_ex (\<lambda>e. str_in ''want'' (lower (ev_note e))) (events p));
          parts = (if tested then [''Tested''] else [])
                  @ (if on_skin then [''On-skin''] else [])
                  @ (if 0 < owned_ml then [''Owned '' @ fmt_g owned_ml @ ''ml''] else [])
                  @ (if want then [''Want''] else [])
      in if parts = [] then (''New'', owned_ml) else (join '' | '' parts, owned_ml))"

subsection \<open>Mapping helper methods of the application\<close>

definition get_brand_name :: "app_data \<Rightarrow> string \<Rightarrow> string" where
  "get_brand_name ad bid = (case map_of (brands_map ad) bid of None \<Rightarrow> [] | Some n \<Rightarrow> n)"

definition get_tag_name :: "app_data \<Rightarrow> string \<Rightarrow> string" where
  "get_tag_name ad tid = (case map_of (tags_map ad) tid of None \<Rightarrow> [] | Some n \<Rightarrow> n)"

text \<open>
  \<^verbatim>\<open>(p.fragrantica or {}).get(key, {})\<close>. The application stores a vote block under every
  key this is called with.
\<close>

definition get_block :: "(string \<times> fr_value) list \<Rightarrow> string \<Rightarrow> votes" where
  "get_block d key = (case map_of d key of Some (Block v) \<Rightarrow> v | _ \<Rightarrow> [])"

text \<open>Python truth value of a stored value.\<close>

fun truthy :: "fr_value \<Rightarrow> bool" where
  "truthy (Block v) = (v \<noteq> [])"
| "truthy (Text s) = (s \<noteq> [])"
| "truthy (Stamp n) = (n \<noteq> 0)"

subsection \<open>Filter\<close>

text \<open>
  \<^verbatim>\<open>App._matches_filter\<close>, block by block in the order of the source. Each block below
  says whether that block returns \<^verbatim>\<open>False\<close> from the function.
\<close>

definition brands_block :: "app_data \<Rightarrow> perfume \<Rightarrow> filter_config \<Rightarrow> bool" where
  "brands_block ad p config =
     (brands config \<noteq> [] \<and> get_brand_name ad (brand_id p) \<notin> set (brands config))"

definition states_block ::
  "(rat \<Rightarrow> string) \<Rightarrow> app_data \<Rightarrow> perfume \<Rightarrow> filter_config \<Rightarrow> bool" where
  "states_block fmt_g ad p config =
     (if states config \<noteq> [] then
        (let tag_names = map (get_tag_name ad) (tag_ids p);
             (state, owned_ml) = derive_state fmt_g p (Some tag_names);
             matches_state = False;
             matches_state = (if ''owned'' \<in> set (states config) \<and> 0 < owned_ml
                              then True else matches_state);
             matches_state = (if ''tested'' \<in> set (states config) \<and> str_in ''Tested'' state
                              then True else matches_state);
             matches_state = (if ''wishlist'' \<in> set (states config) \<and> state = ''Wishlist''
                              then True else matches_state)
         in \<not> matches_state)
      else False)"

definition when_block :: "perfume \<Rightarrow> filter_config \<Rightarrow> bool" where
  "when_block p config =
     (if seasons config \<noteq> [] \<or> times_sel config \<noteq> [] then
        (let fr_votes = get_block (fragrantica p) ''season_time_votes'';
             my_votes_blk = get_block (my_votes p) ''my_season_time_votes'';
             check_items = seasons config @ times_sel config;
             matches_when = list_ex (\<lambda>item. 10 \<le> vote_count fr_votes item
                                          \<or> 0 < vote_count my_votes_blk item) check_items
         in \<not> matches_when)
      else False)"

text \<open>
  The four score blocks. \<open>has_data\<close> and \<open>in_range\<close> are the source's variables.
\<close>

definition rating_block :: "perfume \<Rightarrow> filter_config \<Rightarrow> error + bool" where
  "rating_block p config =
     (if 0 < rating_min config \<or> rating_max config < 5 \<or> rating_exclude config then
        (let fr = get_block (fragrantica p) ''rating_votes''
         in case calculate_rating_score fr RATING_5 of
              Inl e \<Rightarrow> Inl e
            | Inr score \<Rightarrow>
                (let has_data = 0 < score;
                     in_range = (rating_min config \<le> score \<and> score \<le> rating_max config)
                 in if rating_exclude config then Inr (has_data \<and> in_range)
                    else Inr (\<not> has_data \<or> \<not> in_range)))
      else Inr False)"

definition longevity_block :: "perfume \<Rightarrow> filter_config \<Rightarrow> error + bool" where
  "longevity_block p config =
     (if 0 < longevity_min config \<or> longevity_max config < 5 \<or> longevity_exclude config then
        (let fr = get_block (fragrantica p) ''longevity_votes''
         in case calculate_longevity_score fr LONGEVITY_5 of
              Inl e \<Rightarrow> Inl e
            | Inr score \<Rightarrow>
                (let has_data = 0 < score;
                     in_range = (longevity_min config \<le> score \<and> score \<le> longevity_max config)
                 in if longevity_exclude config then Inr (has_data \<and> in_range)
                    else Inr (\<not> has_data \<or> \<not> in_range)))
      else Inr False)"

definition sillage_block :: "perfume \<Rightarrow> filter_config \<Rightarrow> error + bool" where
  "sillage_block p config =
     (if 0 < sillage_min config \<or> sillage_max config < 4 \<or> sillage_exclude config then
        (let fr = get_block (fragrantica p) ''sillage_votes''
         in case calculate_sillage_score fr SILLAGE_4 of
              Inl e \<Rightarrow> Inl e
            | Inr score \<Rightarrow>
                (let has_data = 0 < score;
                     in_range = (sillage_min config \<le> score \<and> score \<le> sillage_max config)
                 in if sillage_exclude config then Inr (has_data \<and> in_range)
                    else Inr (\<not> has_data \<or> \<not> in_range)))
      else Inr False)"

definition value_block :: "perfume \<Rightarrow> filter_config \<Rightarrow> error + bool" where
  "value_block p config =
     (if 0 < value_min config \<or> value_max config < 5 \<or> value_exclude config then
        (let fr = get_block (fragrantica p) ''value_votes''
         in case calculate_value_score fr VALUE_5 of
              Inl e \<Rightarrow> Inl e
            | Inr score \<Rightarrow>
                (let has_data = 0 < score;
                     in_range = (value_min config \<le> score \<and> score \<le> value_max config)
                 in if value_exclude config then Inr (has_data \<and> in_range)
                    else Inr (\<not> has_data \<or> \<not> in_range)))
      else Inr False)"

definition gender_block :: "perfume \<Rightarrow> filter_config \<Rightarrow> bool" where
  "gender_block p config =
     (if gender_preference config \<noteq> [] then
        (let fr = get_block (fragrantica p) ''gender_votes'';
             my = get_block (my_votes p) ''my_gender_votes'';
             matches_any_gender = list_ex (\<lambda>gender. 10 \<le> vote_count fr gender
                                                  \<or> 0 < vote_count my gender)
                                    (gender_preference config)
         in \<not> matches_any_gender)
      else False)"

definition tags_block :: "app_data \<Rightarrow> perfume \<Rightarrow> filter_config \<Rightarrow> bool" where
  "tags_block ad p config =
     (if tags config \<noteq> [] then
        (let p_tags = set (map (get_tag_name ad) (tag_ids p));
             config_tags = set (tags config)
         in if tags_logic config = ''and'' then \<not> config_tags \<subseteq> p_tags
            else config_tags \<inter> p_tags = {})
      else False)"

definition vote_status_block :: "perfume \<Rightarrow> filter_config \<Rightarrow> bool" where
  "vote_status_block p config =
     ((has_my_vote config
         \<and> (my_votes p = [] \<or> \<not> list_ex truthy (dict_values (my_votes p))))
      \<or> (has_fragrantica config
         \<and> (fragrantica p = [] \<or> \<not> list_ex truthy (dict_values (fragrantica p)))))"

text \<open>The score blocks in sequence: the first that returns \<^verbatim>\<open>False\<close> or raises ends it.\<close>

fun first_reject :: "(error + bool) list \<Rightarrow> error + bool" where
  "first_reject [] = Inr False"
| "first_reject (b # bs) =
     (case b of Inl e \<Rightarrow> Inl e | Inr True \<Rightarrow> Inr True | Inr False \<Rightarrow> first_reject bs)"

definition matches_filter ::
  "(rat \<Rightarrow> string) \<Rightarrow> app_data \<Rightarrow> perfume \<Rightarrow> filter_config \<Rightarrow> error + bool" where
  "matches_filter fmt_g ad p config =
     (if brands_block ad p config then Inr False
      else if states_block fmt_g ad p config then Inr False
      else if when_block p config then Inr False
      else (case first_reject [rating_block p config, longevity_block p config,
                               sillage_block p config, value_block p config] of
              Inl e \<Rightarrow> Inl e
            | Inr True \<Rightarrow> Inr False
            | Inr False \<Rightarrow>
                if gender_block p config then Inr False
                else if tags_block ad p config then Inr False
                else if vote_status_block p config then Inr False
                else Inr True))"

subsection \<open>Sort\<close>

text \<open>
  The components of a sort key. \<^verbatim>\<open>_get_sort_value\<close> returns a tuple of one or two of
  them; its shape depends on the dimension and the order only, so two keys of one sort
  have the same kind of component at the same place.
\<close>

datatype sort_atom = AStr string | ABool bool | ANum rat

fun atom_lt :: "sort_atom \<Rightarrow> sort_atom \<Rightarrow> bool" where
  "atom_lt (AStr s) (AStr t) = str_lt s t"
| "atom_lt (ABool a) (ABool b) = (\<not> a \<and> b)"
| "atom_lt (ANum x) (ANum y) = (x < y)"
| "atom_lt _ _ = False"

text \<open>
  \<^verbatim>\<open>a < b\<close> for tuples: the first place where they differ decides, a proper prefix is
  smaller.
\<close>

fun tuple_lt :: "sort_atom list \<Rightarrow> sort_atom list \<Rightarrow> bool" where
  "tuple_lt [] [] = False"
| "tuple_lt [] (y # ys) = True"
| "tuple_lt (x # xs) [] = False"
| "tuple_lt (x # xs) (y # ys) = (if x = y then tuple_lt xs ys else atom_lt x y)"

fun key_lt :: "sort_atom list list \<Rightarrow> sort_atom list list \<Rightarrow> bool" where
  "key_lt [] [] = False"
| "key_lt [] (y # ys) = True"
| "key_lt (x # xs) [] = False"
| "key_lt (x # xs) (y # ys) = (if x = y then key_lt xs ys else tuple_lt x y)"

text \<open>
  \<^verbatim>\<open>sorted(xs, key=...)\<close> is stable: an element goes before the first element whose key
  is not smaller than its own, and the elements are inserted from the right.
\<close>

fun insort_keyed ::
  "(sort_atom list list \<times> 'a) \<Rightarrow> (sort_atom list list \<times> 'a) list
     \<Rightarrow> (sort_atom list list \<times> 'a) list" where
  "insort_keyed x [] = [x]"
| "insort_keyed x (y # ys) =
     (if key_lt (fst y) (fst x) then y # insort_keyed x ys else x # y # ys)"

definition sorted_keyed :: "(sort_atom list list \<times> 'a) list \<Rightarrow> 'a list" where
  "sorted_keyed kxs = map snd (foldr insort_keyed kxs [])"

text \<open>A list of results, the first exception if there is one.\<close>

fun collect :: "(error + 'a) list \<Rightarrow> error + 'a list" where
  "collect [] = Inr []"
| "collect (r # rs) =
     (case r of
        Inl e \<Rightarrow> Inl e
      | Inr v \<Rightarrow> (case collect rs of Inl e \<Rightarrow> Inl e | Inr vs \<Rightarrow> Inr (v # vs)))"

definition score_key :: "bool \<Rightarrow> error + rat \<Rightarrow> error + sort_atom list" where
  "score_key negate r =
     (case r of Inl e \<Rightarrow> Inl e | Inr score \<Rightarrow> Inr [ANum (if negate then - score else score)])"

definition state_priority :: "string \<Rightarrow> rat" where
  "state_priority s =
     (if s = ''Owned'' then 0 else if s = ''Tested'' then 1 else if s = ''Wishlist'' then 2
      else 3)"

definition get_sort_value ::
  "(rat \<Rightarrow> string) \<Rightarrow> app_data \<Rightarrow> perfume \<Rightarrow> string \<Rightarrow> string \<Rightarrow> error + sort_atom list"
  where
  "get_sort_value fmt_g ad p dimension order =
     (if dimension = ''brand'' then
        (let brand_name = lower (get_brand_name ad (brand_id p))
         in Inr (if order = ''asc'' then [AStr brand_name] else [AStr brand_name, ABool True]))
      else if dimension = ''name'' then
        Inr (if order = ''asc'' then [AStr (lower (p_name p))]
             else [AStr (lower (p_name p)), ABool True])
      else if dimension = ''rating'' then
        score_key (order = ''desc'')
          (calculate_rating_score (get_block (fragrantica p) ''rating_votes'') RATING_5)
      else if dimension = ''longevity'' then
        score_key (order = ''desc'')
          (calculate_longevity_score (get_block (fragrantica p) ''longevity_votes'') LONGEVITY_5)
      else if dimension = ''sillage'' then
        score_key (order = ''desc'')
          (calculate_sillage_score (get_block (fragrantica p) ''sillage_votes'') SILLAGE_4)
      else if dimension = ''gender'' then
        (case calculate_gender_score (get_block (fragrantica p) ''gender_votes'') GENDER_5 of
           Inl e \<Rightarrow> Inl e
         | Inr score \<Rightarrow>
             Inr (if order = ''female_first'' then [ANum score]
                  else if order = ''male_first'' then [ANum (- score)]
                  else [ANum \<bar>score - 3\<bar>]))
      else if dimension = ''value'' then
        score_key (order = ''desc'')
          (calculate_value_score (get_block (fragrantica p) ''value_votes'') VALUE_5)
      else if dimension = ''state'' then
        (let tag_names = map (get_tag_name ad) (tag_ids p);
             (state, owned_ml) = derive_state fmt_g p (Some tag_names)
         in Inr [ANum (state_priority (takeWhile (\<lambda>c. c \<noteq> CHR '','') state))])
      else Inr [ANum 0])"

definition sort_key_fn ::
  "(rat \<Rightarrow> string) \<Rightarrow> app_data \<Rightarrow> sort_config \<Rightarrow> perfume \<Rightarrow> error + sort_atom list list"
  where
  "sort_key_fn fmt_g ad config p =
     collect (map (\<lambda>(dim, order). get_sort_value fmt_g ad p dim order) (dimensions config))"

definition sort_perfumes ::
  "(rat \<Rightarrow> string) \<Rightarrow> app_data \<Rightarrow> perfume list \<Rightarrow> sort_config \<Rightarrow> error + perfume list"
  where
  "sort_perfumes fmt_g ad ps config =
     (if dimensions config = [] then Inr ps
      else (case collect (map (sort_key_fn fmt_g ad config) ps) of
              Inl e \<Rightarrow> Inl e
            | Inr keys \<Rightarrow> Inr (sorted_keyed (zip keys ps))))"

subsection \<open>Reference tables: the Manage Data dialog\<close>

text \<open>
  The dialog works on the table of its current tab. The state is the application's:
  the perfumes and the five tables. The list box offers the keys of the current table,
  each once, so the ids of a selection are distinct keys of it.
\<close>

datatype tab = Brands | Tags | Concentrations | Outlets | Purchase_types

text \<open>The keys of \<^verbatim>\<open>_get_current_map()\<close>, in table order.\<close>

definition current_keys :: "tab \<Rightarrow> app_data \<Rightarrow> string list" where
  "current_keys t ad =
     (case t of
        Brands \<Rightarrow> map fst (brands_map ad)
      | Tags \<Rightarrow> map fst (tags_map ad)
      | Concentrations \<Rightarrow> map fst (concentrations_map ad)
      | Outlets \<Rightarrow> map fst (outlets_map ad)
      | Purchase_types \<Rightarrow> map fst (purchase_types_map ad))"

text \<open>\<^verbatim>\<open>_get_item_name\<close>: the display name, with the region for an outlet.\<close>

definition outlet_display :: "outlet_info \<Rightarrow> string" where
  "outlet_display item =
     outlet_name item @ (if region item \<noteq> [] then '' ('' @ region item @ '')'' else [])"

definition name_or_empty :: "string option \<Rightarrow> string" where
  "name_or_empty item = (case item of None \<Rightarrow> [] | Some n \<Rightarrow> n)"

definition get_item_name :: "tab \<Rightarrow> app_data \<Rightarrow> string \<Rightarrow> string" where
  "get_item_name t ad item_id =
     (case t of
        Brands \<Rightarrow> name_or_empty (map_of (brands_map ad) item_id)
      | Tags \<Rightarrow> name_or_empty (map_of (tags_map ad) item_id)
      | Concentrations \<Rightarrow> name_or_empty (map_of (concentrations_map ad) item_id)
      | Outlets \<Rightarrow>
          (case map_of (outlets_map ad) item_id of None \<Rightarrow> [] | Some item \<Rightarrow> outlet_display item)
      | Purchase_types \<Rightarrow> name_or_empty (map_of (purchase_types_map ad) item_id))"

text \<open>\<^verbatim>\<open>_count_usage\<close>\<close>

definition count_usage :: "tab \<Rightarrow> app_data \<Rightarrow> string \<Rightarrow> nat" where
  "count_usage t ad item_id =
     (case t of
        Brands \<Rightarrow> length (filter (\<lambda>p. brand_id p = item_id) (perfumes ad))
      | Tags \<Rightarrow> length (filter (\<lambda>p. item_id \<in> set (tag_ids p)) (perfumes ad))
      | Concentrations \<Rightarrow> length (filter (\<lambda>p. concentration_id p = item_id) (perfumes ad))
      | Outlets \<Rightarrow> length (filter (\<lambda>p. item_id \<in> set (outlet_ids p)) (perfumes ad))
      | Purchase_types \<Rightarrow>
          length (filter (\<lambda>e. purchase_type_id e = item_id) (concat (map events (perfumes ad)))))"

text \<open>
  \<^verbatim>\<open>current_map[target_id] = ...\<close>: the kept name, for an outlet with an empty region. A
  key that is present keeps its place, a new key goes to the end.
\<close>

definition set_current_value :: "tab \<Rightarrow> string \<Rightarrow> string \<Rightarrow> app_data \<Rightarrow> app_data" where
  "set_current_value t target_id keep_name ad =
     (case t of
        Brands \<Rightarrow> ad\<lparr>brands_map := AList.update target_id keep_name (brands_map ad)\<rparr>
      | Tags \<Rightarrow> ad\<lparr>tags_map := AList.update target_id keep_name (tags_map ad)\<rparr>
      | Concentrations \<Rightarrow>
          ad\<lparr>concentrations_map := AList.update target_id keep_name (concentrations_map ad)\<rparr>
      | Outlets \<Rightarrow>
          ad\<lparr>outlets_map :=
               AList.update target_id \<lparr>outlet_name = keep_name, region = []\<rparr> (outlets_map ad)\<rparr>
      | Purchase_types \<Rightarrow>
          ad\<lparr>purchase_types_map := AList.update target_id keep_name (purchase_types_map ad)\<rparr>)"

text \<open>\<^verbatim>\<open>del current_map[sid]\<close>, which raises KeyError when the key is missing.\<close>

definition del_current :: "tab \<Rightarrow> string \<Rightarrow> app_data \<Rightarrow> error + app_data" where
  "del_current t sid ad =
     (if sid \<notin> set (current_keys t ad) then Inl KeyError
      else Inr (case t of
                  Brands \<Rightarrow> ad\<lparr>brands_map := AList.delete sid (brands_map ad)\<rparr>
                | Tags \<Rightarrow> ad\<lparr>tags_map := AList.delete sid (tags_map ad)\<rparr>
                | Concentrations \<Rightarrow>
                    ad\<lparr>concentrations_map := AList.delete sid (concentrations_map ad)\<rparr>
                | Outlets \<Rightarrow> ad\<lparr>outlets_map := AList.delete sid (outlets_map ad)\<rparr>
                | Purchase_types \<Rightarrow>
                    ad\<lparr>purchase_types_map := AList.delete sid (purchase_types_map ad)\<rparr>))"

text \<open>
  The body of the loop \<^verbatim>\<open>for p in self.app.perfumes\<close> of \<^verbatim>\<open>_merge_selected\<close>, for one
  merged id \<open>sid\<close>. The tags and the outlets of a perfume are rewritten by the same two
  statements, \<open>rewrite_id_list\<close>: only a list that holds \<open>sid\<close> is replaced.
\<close>

definition rewrite_id_list :: "string \<Rightarrow> string \<Rightarrow> string list \<Rightarrow> string list" where
  "rewrite_id_list sid target_id ids =
     (if sid \<in> set ids then
        fromkeys (map (\<lambda>tid. if tid = sid then target_id else tid) ids)
      else ids)"

definition rewrite_refs :: "tab \<Rightarrow> string \<Rightarrow> string \<Rightarrow> perfume \<Rightarrow> perfume" where
  "rewrite_refs t sid target_id p =
     (case t of
        Brands \<Rightarrow> if brand_id p = sid then p\<lparr>brand_id := target_id\<rparr> else p
      | Tags \<Rightarrow> p\<lparr>tag_ids := rewrite_id_list sid target_id (tag_ids p)\<rparr>
      | Concentrations \<Rightarrow>
          if concentration_id p = sid then p\<lparr>concentration_id := target_id\<rparr> else p
      | Outlets \<Rightarrow> p\<lparr>outlet_ids := rewrite_id_list sid target_id (outlet_ids p)\<rparr>
      | Purchase_types \<Rightarrow>
          p\<lparr>events :=
              map (\<lambda>e. if purchase_type_id e = sid then e\<lparr>purchase_type_id := target_id\<rparr> else e)
                (events p)\<rparr>)"

text \<open>The loop \<^verbatim>\<open>for sid in selected_ids\<close> of \<^verbatim>\<open>_merge_selected\<close>.\<close>

fun merge_loop :: "tab \<Rightarrow> string \<Rightarrow> string list \<Rightarrow> app_data \<Rightarrow> error + app_data" where
  "merge_loop t target_id [] ad = Inr ad"
| "merge_loop t target_id (sid # sids) ad =
     (if sid = target_id then merge_loop t target_id sids ad
      else
        (case del_current t sid
                (ad\<lparr>perfumes := map (rewrite_refs t sid target_id) (perfumes ad)\<rparr>) of
           Inl e \<Rightarrow> Inl e
         | Inr ad' \<Rightarrow> merge_loop t target_id sids ad'))"

text \<open>
  \<^verbatim>\<open>App.save\<close>: every perfume gets \<^verbatim>\<open>updated_at = now_ts()\<close>, then the data is written to
  the file. \<open>clock i\<close> is the time that \<^verbatim>\<open>now_ts()\<close> returns for the perfume at position
  \<open>i\<close>; the file is outside the model.
\<close>

definition save :: "(nat \<Rightarrow> int) \<Rightarrow> app_data \<Rightarrow> app_data" where
  "save clock ad =
     ad\<lparr>perfumes :=
          map (\<lambda>(i, p). p\<lparr>updated_at := clock i\<rparr>)
            (zip [0..<length (perfumes ad)] (perfumes ad))\<rparr>"

text \<open>
  What the dialog shows at the end of an action. \<open>answer\<close> below is what the user
  typed into the prompt for the name to keep, \<open>None\<close> when the prompt was cancelled. A
  merge ends with \<^verbatim>\<open>self.app.save()\<close>; the paths that return early do not save.
\<close>

datatype merge_outcome = Select_multiple | Merge_cancelled | Merged nat string

definition merge_selected ::
  "tab \<Rightarrow> string list \<Rightarrow> string option \<Rightarrow> (nat \<Rightarrow> int) \<Rightarrow> app_data
     \<Rightarrow> error + merge_outcome \<times> app_data"
  where
  "merge_selected t selected_ids answer clock ad =
     (if length selected_ids < 2 then Inr (Select_multiple, ad)
      else (case answer of
              None \<Rightarrow> Inr (Merge_cancelled, ad)
            | Some typed \<Rightarrow>
                if typed = [] then Inr (Merge_cancelled, ad)
                else
                  (let keep_name = strip typed;
                       target_id = selected_ids ! 0
                   in case merge_loop t target_id selected_ids
                             (set_current_value t target_id keep_name ad) of
                        Inl e \<Rightarrow> Inl e
                      | Inr ad' \<Rightarrow>
                          Inr (Merged (length selected_ids) keep_name, save clock ad'))))"

text \<open>
  \<^verbatim>\<open>_delete_selected\<close>. \<open>confirm\<close> is the user's answer to the yes/no question. The
  warning carries one line per item in use, \<^verbatim>\<open>f"{name} ({usage})"\<close>. A deletion ends with
  \<^verbatim>\<open>self.app.save()\<close>; the paths that return early do not save.
\<close>

datatype delete_outcome =
  Select_items | Cannot_delete "string list" | Nothing_unused | Delete_declined | Deleted

definition used_items :: "tab \<Rightarrow> app_data \<Rightarrow> string list \<Rightarrow> string list" where
  "used_items t ad selected_ids =
     map (\<lambda>sid. get_item_name t ad sid @ '' ('' @ str_of_nat (count_usage t ad sid) @ '')'')
       (filter (\<lambda>sid. 0 < count_usage t ad sid) selected_ids)"

definition unused_items :: "tab \<Rightarrow> app_data \<Rightarrow> string list \<Rightarrow> string list" where
  "unused_items t ad selected_ids =
     map (get_item_name t ad) (filter (\<lambda>sid. \<not> 0 < count_usage t ad sid) selected_ids)"

fun delete_loop :: "tab \<Rightarrow> string list \<Rightarrow> app_data \<Rightarrow> error + app_data" where
  "delete_loop t [] ad = Inr ad"
| "delete_loop t (sid # sids) ad =
     (if count_usage t ad sid = 0 then
        (case del_current t sid ad of Inl e \<Rightarrow> Inl e | Inr ad' \<Rightarrow> delete_loop t sids ad')
      else delete_loop t sids ad)"

definition delete_selected ::
  "tab \<Rightarrow> string list \<Rightarrow> bool \<Rightarrow> (nat \<Rightarrow> int) \<Rightarrow> app_data
     \<Rightarrow> error + delete_outcome \<times> app_data" where
  "delete_selected t selected_ids confirm clock ad =
     (if selected_ids = [] then Inr (Select_items, ad)
      else if used_items t ad selected_ids \<noteq> [] then
        Inr (Cannot_delete (used_items t ad selected_ids), ad)
      else if unused_items t ad selected_ids = [] then Inr (Nothing_unused, ad)
      else if \<not> confirm then Inr (Delete_declined, ad)
      else (case delete_loop t selected_ids ad of
              Inl e \<Rightarrow> Inl e
            | Inr ad' \<Rightarrow> Inr (Deleted, save clock ad')))"

text \<open>
  The ids a perfume holds for the table of a tab, as \<^verbatim>\<open>_count_usage\<close> and
  \<^verbatim>\<open>_merge_selected\<close> read them.
\<close>

definition refs_of :: "tab \<Rightarrow> perfume \<Rightarrow> string list" where
  "refs_of t p =
     (case t of
        Brands \<Rightarrow> [brand_id p]
      | Tags \<Rightarrow> tag_ids p
      | Concentrations \<Rightarrow> [concentration_id p]
      | Outlets \<Rightarrow> outlet_ids p
      | Purchase_types \<Rightarrow> map purchase_type_id (events p))"

subsection \<open>The categories\<close>

text \<open>
  Each score and summary function with the option list the application calls it with
  (\<^verbatim>\<open>_matches_filter\<close>, \<^verbatim>\<open>_get_sort_value\<close>; \<^verbatim>\<open>summary_funcs\<close> and \<^verbatim>\<open>VOTE_BLOCKS\<close>).
\<close>

definition categories_scores :: "((votes \<Rightarrow> string list \<Rightarrow> error + rat) \<times> string list) list" where
  "categories_scores =
     [(calculate_rating_score, RATING_5), (calculate_longevity_score, LONGEVITY_5),
      (calculate_sillage_score, SILLAGE_4), (calculate_gender_score, GENDER_5),
      (calculate_value_score, VALUE_5)]"

definition categories_summaries ::
  "(rat \<Rightarrow> string) \<Rightarrow> ((votes \<Rightarrow> string list \<Rightarrow> error + string) \<times> string list) list" where
  "categories_summaries fmt_2f =
     [(calculate_rating_summary fmt_2f, RATING_5), (calculate_when_summary, SEASON_TIME_6),
      (calculate_longevity_summary fmt_2f, LONGEVITY_5),
      (calculate_sillage_summary fmt_2f, SILLAGE_4), (calculate_gender_summary, GENDER_5),
      (calculate_value_summary, VALUE_5)]"

subsection \<open>Constructors with the dataclass defaults\<close>

text \<open>\<^verbatim>\<open>Perfume(id=pid, name=n)\<close>, created at time 0, and \<^verbatim>\<open>AppData()\<close>.\<close>

definition new_perfume :: "string \<Rightarrow> string \<Rightarrow> perfume" where
  "new_perfume pid n =
     \<lparr>p_id = pid, p_name = n, brand_id = [], concentration_id = [], outlet_ids = [],
      tag_ids = [], created_at = 0, updated_at = 0, events = [], p_notes = [], links = [],
      fragrantica = [], my_votes = []\<rparr>"

definition new_app_data :: app_data where
  "new_app_data =
     \<lparr>perfumes = [], brands_map = [], concentrations_map = [], outlets_map = [],
      tags_map = [], purchase_types_map = []\<rparr>"

text \<open>A small collection on which the dialog's operations are run below.\<close>

definition example_data :: app_data where
  "example_data =
     new_app_data
       \<lparr>perfumes :=
          [(new_perfume ''p1'' ''No 5'')
             \<lparr>brand_id := ''idA'', tag_ids := [''t1'', ''t2'', ''t3'']\<rparr>,
           (new_perfume ''p2'' ''Coco'')
             \<lparr>brand_id := ''idB'', tag_ids := [''t3'', ''t2'']\<rparr>],
        brands_map := [(''idA'', ''Chanel''), (''idB'', ''CHANEL''), (''idC'', ''Dior'')],
        tags_map := [(''t1'', ''floral''), (''t2'', ''Floral''), (''t3'', ''citrus'')]\<rparr>"

subsection \<open>Specification-side definitions\<close>

text \<open>
  The pass condition of a score-range facet as the specification words it: with
  \<open>has_data = score > 0\<close> and \<open>in_range = min \<le> score \<le> max\<close>, include mode requires
  \<open>has_data \<and> in_range\<close> and exclude mode requires its negation. It is compared with
  the four score blocks of the filter below.
\<close>

definition spec_range_pass :: "rat \<Rightarrow> rat \<Rightarrow> bool \<Rightarrow> rat \<Rightarrow> bool" where
  "spec_range_pass lo hi exclude score =
     (let has_data = 0 < score; in_range = (lo \<le> score \<and> score \<le> hi)
      in if exclude then \<not> (has_data \<and> in_range) else has_data \<and> in_range)"

text \<open>
  \<^verbatim>\<open>current_map.get(item_id)\<close> for the table of a tab: a name, or the name and region of
  an outlet.
\<close>

definition current_get :: "tab \<Rightarrow> app_data \<Rightarrow> string \<Rightarrow> (string + outlet_info) option" where
  "current_get t ad item_id =
     (case t of
        Brands \<Rightarrow> map_option Inl (map_of (brands_map ad) item_id)
      | Tags \<Rightarrow> map_option Inl (map_of (tags_map ad) item_id)
      | Concentrations \<Rightarrow> map_option Inl (map_of (concentrations_map ad) item_id)
      | Outlets \<Rightarrow> map_option Inr (map_of (outlets_map ad) item_id)
      | Purchase_types \<Rightarrow> map_option Inl (map_of (purchase_types_map ad) item_id))"

text \<open>The value \<^verbatim>\<open>_merge_selected\<close> stores for the kept name.\<close>

definition kept_value :: "tab \<Rightarrow> string \<Rightarrow> string + outlet_info" where
  "kept_value t keep_name =
     (case t of Outlets \<Rightarrow> Inr \<lparr>outlet_name = keep_name, region = []\<rparr> | _ \<Rightarrow> Inl keep_name)"

section \<open>Verified properties\<close>

subsection \<open>Scores\<close>

lemma index_weights_bounds:
  assumes "k \<in> set keys"
  shows "\<exists>w. index_weights keys k = Some w \<and> 1 \<le> w \<and> w \<le> int (length keys)"
proof -
  let ?ps = "rev (map (\<lambda>i. (keys ! i, int i + 1)) [0..<length keys])"
  from assms obtain i where i: "i < length keys" "keys ! i = k"
    by (auto simp: in_set_conv_nth)
  then have "k \<in> fst ` set ?ps" by force
  then obtain w where w: "map_of ?ps k = Some w"
    by (cases "map_of ?ps k") (auto simp: map_of_eq_None_iff)
  then have "(k, w) \<in> set ?ps" by (rule map_of_SomeD)
  then obtain j where "j < length keys" "w = int j + 1" by auto
  with w show ?thesis by (auto simp: index_weights_def dict_of_def)
qed

lemma rating_weights_bounds:
  "k \<in> set RATING_5 \<Longrightarrow> \<exists>w. rating_weights RATING_5 k = Some w \<and> 1 \<le> w \<and> w \<le> 5"
  by (auto simp: RATING_5_def rating_weights_def dict_of_def)

lemma weighted_sum_bounds:
  assumes "\<forall>k\<in>set ks. \<exists>w. weights k = Some w \<and> lo \<le> w \<and> w \<le> hi"
    and "\<forall>k\<in>set ks. 0 \<le> vote_count votes k"
  shows "\<exists>ws. weighted_sum votes weights ks = Inr ws
           \<and> lo * total_votes votes ks \<le> ws \<and> ws \<le> hi * total_votes votes ks"
  using assms
proof (induction ks)
  case Nil
  then show ?case by (simp add: total_votes_def)
next
  case (Cons k ks)
  from Cons.prems obtain w where w: "weights k = Some w" "lo \<le> w" "w \<le> hi" by auto
  from Cons obtain ws where ws: "weighted_sum votes weights ks = Inr ws"
    "lo * total_votes votes ks \<le> ws" "ws \<le> hi * total_votes votes ks" by auto
  have c: "0 \<le> vote_count votes k" using Cons.prems by simp
  have "lo * vote_count votes k \<le> vote_count votes k * w"
    using mult_right_mono [OF w(2) c] by (simp add: mult.commute)
  moreover have "vote_count votes k * w \<le> hi * vote_count votes k"
    using mult_right_mono [OF w(3) c] by (simp add: mult.commute)
  ultimately show ?case using w ws
    by (simp add: weight_lookup_def total_votes_def distrib_left)
qed

lemma total_votes_nonneg:
  "\<forall>k\<in>set ks. 0 \<le> vote_count votes k \<Longrightarrow> 0 \<le> total_votes votes ks"
  by (induction ks) (auto simp: total_votes_def)

lemma total_votes_all_zero:
  "\<forall>k\<in>set ks. vote_count votes k = 0 \<Longrightarrow> total_votes votes ks = 0"
  by (induction ks) (auto simp: total_votes_def)

lemma total_votes_zero_iff:
  assumes "\<forall>k\<in>set ks. 0 \<le> vote_count votes k"
  shows "total_votes votes ks = 0 \<longleftrightarrow> (\<forall>k\<in>set ks. vote_count votes k = 0)"
  using assms
proof (induction ks)
  case Nil
  then show ?case by (simp add: total_votes_def)
next
  case (Cons k ks)
  have a: "0 \<le> vote_count votes k" using Cons.prems by simp
  have b: "0 \<le> total_votes votes ks" using Cons.prems by (simp add: total_votes_nonneg)
  have "total_votes votes (k # ks) = vote_count votes k + total_votes votes ks"
    by (simp add: total_votes_def)
  then have "total_votes votes (k # ks) = 0
      \<longleftrightarrow> vote_count votes k = 0 \<and> total_votes votes ks = 0"
    using a b by linarith
  then show ?case using Cons by simp
qed

lemma quotient_bounds:
  fixes ws t lo hi :: int
  assumes "0 < t" "lo * t \<le> ws" "ws \<le> hi * t"
  shows "(of_int lo :: rat) \<le> of_int ws / of_int t \<and> of_int ws / of_int t \<le> (of_int hi :: rat)"
proof -
  have t: "(0::rat) < of_int t" using assms(1) by simp
  have "(of_int (lo * t) :: rat) \<le> of_int ws" using assms(2) by (simp only: of_int_le_iff)
  then have a: "(of_int lo :: rat) \<le> of_int ws / of_int t" using t by (simp add: le_divide_eq)
  have "(of_int ws :: rat) \<le> of_int (hi * t)" using assms(3) by (simp only: of_int_le_iff)
  then have b: "of_int ws / of_int t \<le> (of_int hi :: rat)" using t by (simp add: divide_le_eq)
  from a b show ?thesis ..
qed

text \<open>The common body of the five score functions, for any weights between 1 and \<open>n\<close>.\<close>

lemma weighted_score_scale:
  assumes w: "\<forall>k\<in>set keys. \<exists>w. weights k = Some w \<and> 1 \<le> w \<and> w \<le> n"
    and nn: "\<forall>k\<in>set keys. 0 \<le> vote_count votes k"
    and r: "r = (if total_votes votes keys = 0 then Inr 0
         else (case weighted_sum votes weights keys of
                 Inl e \<Rightarrow> Inl e
               | Inr ws \<Rightarrow> Inr (of_int ws / of_int (total_votes votes keys))))"
  shows "\<exists>s::rat. r = Inr s
        \<and> ((\<forall>k\<in>set keys. vote_count votes k = 0) \<longrightarrow> s = 0)
        \<and> ((\<exists>k\<in>set keys. vote_count votes k \<noteq> 0) \<longrightarrow> 1 \<le> s \<and> s \<le> of_int n)
        \<and> (0 < s \<longleftrightarrow> (\<exists>k\<in>set keys. 0 < vote_count votes k))"
proof (cases "total_votes votes keys = 0")
  case True
  then have z: "\<forall>k\<in>set keys. vote_count votes k = 0"
    using total_votes_zero_iff [OF nn] by simp
  have "r = Inr 0" using True r by simp
  with z show ?thesis by auto
next
  case False
  then have pos: "0 < total_votes votes keys"
    using total_votes_nonneg [OF nn] by linarith
  from False have nz: "\<exists>k\<in>set keys. vote_count votes k \<noteq> 0"
    using total_votes_all_zero by blast
  then obtain k0 where k0: "k0 \<in> set keys" "vote_count votes k0 \<noteq> 0" by blast
  then have "0 < vote_count votes k0" using nn by (simp add: order_less_le)
  with k0 have nz': "\<exists>k\<in>set keys. 0 < vote_count votes k" by blast
  from weighted_sum_bounds [OF w nn] obtain ws where
    ws: "weighted_sum votes weights keys = Inr ws"
      "1 * total_votes votes keys \<le> ws" "ws \<le> n * total_votes votes keys" by blast
  have q: "(of_int 1 :: rat) \<le> of_int ws / of_int (total_votes votes keys)
        \<and> of_int ws / of_int (total_votes votes keys) \<le> (of_int n :: rat)"
    by (rule quotient_bounds [OF pos ws(2) ws(3)])
  have "r = Inr (of_int ws / of_int (total_votes votes keys))"
    using False r ws(1) by simp
  with q nz nz' show ?thesis by auto
qed

lemma index_score_scale:
  assumes nn: "\<forall>k\<in>set keys. 0 \<le> vote_count votes k"
    and r: "r = (if total_votes votes keys = 0 then Inr 0
         else (case weighted_sum votes (index_weights keys) keys of
                 Inl e \<Rightarrow> Inl e
               | Inr ws \<Rightarrow> Inr (of_int ws / of_int (total_votes votes keys))))"
  shows "\<exists>s::rat. r = Inr s
        \<and> ((\<forall>k\<in>set keys. vote_count votes k = 0) \<longrightarrow> s = 0)
        \<and> ((\<exists>k\<in>set keys. vote_count votes k \<noteq> 0) \<longrightarrow> 1 \<le> s \<and> s \<le> of_nat (length keys))
        \<and> (0 < s \<longleftrightarrow> (\<exists>k\<in>set keys. 0 < vote_count votes k))"
proof -
  have w: "\<forall>k\<in>set keys. \<exists>w. index_weights keys k = Some w \<and> 1 \<le> w \<and> w \<le> int (length keys)"
    using index_weights_bounds by blast
  from weighted_score_scale [OF w nn r] show ?thesis by simp
qed

lemma rating_score_scale:
  assumes nn: "\<forall>k\<in>set RATING_5. 0 \<le> vote_count votes k"
  shows "\<exists>s::rat. calculate_rating_score votes RATING_5 = Inr s
        \<and> ((\<forall>k\<in>set RATING_5. vote_count votes k = 0) \<longrightarrow> s = 0)
        \<and> ((\<exists>k\<in>set RATING_5. vote_count votes k \<noteq> 0) \<longrightarrow> 1 \<le> s \<and> s \<le> of_nat (length RATING_5))
        \<and> (0 < s \<longleftrightarrow> (\<exists>k\<in>set RATING_5. 0 < vote_count votes k))"
proof -
  have w: "\<forall>k\<in>set RATING_5. \<exists>w. rating_weights RATING_5 k = Some w \<and> 1 \<le> w \<and> w \<le> 5"
    using rating_weights_bounds by blast
  have len: "length RATING_5 = 5" by (simp add: RATING_5_def)
  have r: "calculate_rating_score votes RATING_5 =
      (if total_votes votes RATING_5 = 0 then Inr 0
         else (case weighted_sum votes (rating_weights RATING_5) RATING_5 of
                 Inl e \<Rightarrow> Inl e
               | Inr ws \<Rightarrow> Inr (of_int ws / of_int (total_votes votes RATING_5))))"
    by (simp add: calculate_rating_score_def Let_def len)
  from weighted_score_scale [OF w nn r] show ?thesis by (simp add: len)
qed

text \<open>
  C10: for every category with its N declared options and every tally whose counts for
  those options are non-negative, the score is 0 when every count is 0 and lies between 1
  and N otherwise; so the score is positive exactly when some count is positive.
\<close>

theorem score_zero_or_in_scale:
  "\<forall>(score, keys) \<in> set categories_scores.
     (\<forall>k\<in>set keys. 0 \<le> vote_count votes k) \<longrightarrow>
     (\<exists>s. score votes keys = Inr s
        \<and> ((\<forall>k\<in>set keys. vote_count votes k = 0) \<longrightarrow> s = 0)
        \<and> ((\<exists>k\<in>set keys. vote_count votes k \<noteq> 0) \<longrightarrow> 1 \<le> s \<and> s \<le> of_nat (length keys))
        \<and> (0 < s \<longleftrightarrow> (\<exists>k\<in>set keys. 0 < vote_count votes k)))"
proof -
  have 1: "(\<forall>k\<in>set RATING_5. 0 \<le> vote_count votes k) \<longrightarrow>
     (\<exists>s. calculate_rating_score votes RATING_5 = Inr s
        \<and> ((\<forall>k\<in>set RATING_5. vote_count votes k = 0) \<longrightarrow> s = 0)
        \<and> ((\<exists>k\<in>set RATING_5. vote_count votes k \<noteq> 0) \<longrightarrow> 1 \<le> s \<and> s \<le> of_nat (length RATING_5))
        \<and> (0 < s \<longleftrightarrow> (\<exists>k\<in>set RATING_5. 0 < vote_count votes k)))"
    using rating_score_scale by blast
  have 2: "(\<forall>k\<in>set keys. 0 \<le> vote_count votes k) \<longrightarrow>
     (\<exists>s. calculate_longevity_score votes keys = Inr s
        \<and> ((\<forall>k\<in>set keys. vote_count votes k = 0) \<longrightarrow> s = 0)
        \<and> ((\<exists>k\<in>set keys. vote_count votes k \<noteq> 0) \<longrightarrow> 1 \<le> s \<and> s \<le> of_nat (length keys))
        \<and> (0 < s \<longleftrightarrow> (\<exists>k\<in>set keys. 0 < vote_count votes k)))" for keys
    using index_score_scale [of keys votes "calculate_longevity_score votes keys"]
    by (simp add: calculate_longevity_score_def Let_def)
  have 3: "(\<forall>k\<in>set keys. 0 \<le> vote_count votes k) \<longrightarrow>
     (\<exists>s. calculate_sillage_score votes keys = Inr s
        \<and> ((\<forall>k\<in>set keys. vote_count votes k = 0) \<longrightarrow> s = 0)
        \<and> ((\<exists>k\<in>set keys. vote_count votes k \<noteq> 0) \<longrightarrow> 1 \<le> s \<and> s \<le> of_nat (length keys))
        \<and> (0 < s \<longleftrightarrow> (\<exists>k\<in>set keys. 0 < vote_count votes k)))" for keys
    using index_score_scale [of keys votes "calculate_sillage_score votes keys"]
    by (simp add: calculate_sillage_score_def Let_def)
  have 4: "(\<forall>k\<in>set keys. 0 \<le> vote_count votes k) \<longrightarrow>
     (\<exists>s. calculate_gender_score votes keys = Inr s
        \<and> ((\<forall>k\<in>set keys. vote_count votes k = 0) \<longrightarrow> s = 0)
        \<and> ((\<exists>k\<in>set keys. vote_count votes k \<noteq> 0) \<longrightarrow> 1 \<le> s \<and> s \<le> of_nat (length keys))
        \<and> (0 < s \<longleftrightarrow> (\<exists>k\<in>set keys. 0 < vote_count votes k)))" for keys
    using index_score_scale [of keys votes "calculate_gender_score votes keys"]
    by (simp add: calculate_gender_score_def Let_def)
  have 5: "(\<forall>k\<in>set keys. 0 \<le> vote_count votes k) \<longrightarrow>
     (\<exists>s. calculate_value_score votes keys = Inr s
        \<and> ((\<forall>k\<in>set keys. vote_count votes k = 0) \<longrightarrow> s = 0)
        \<and> ((\<exists>k\<in>set keys. vote_count votes k \<noteq> 0) \<longrightarrow> 1 \<le> s \<and> s \<le> of_nat (length keys))
        \<and> (0 < s \<longleftrightarrow> (\<exists>k\<in>set keys. 0 < vote_count votes k)))" for keys
    using index_score_scale [of keys votes "calculate_value_score votes keys"]
    by (simp add: calculate_value_score_def Let_def)
  show ?thesis
    unfolding categories_scores_def using 1 2 3 4 5 by simp
qed

theorem score_zero_or_in_scale_witness:
  "list_all (\<lambda>k. 0 \<le> vote_count [(''eternal'', 2), (''poor'', 1)] k) LONGEVITY_5
   \<and> (\<exists>s. calculate_longevity_score [(''eternal'', 2), (''poor'', 1)] LONGEVITY_5 = Inr s
          \<and> 1 \<le> s \<and> s \<le> 5 \<and> 0 < s)"
proof -
  let ?v = "[(''eternal'', 2), (''poor'', 1)] :: votes"
  have m: "(calculate_longevity_score, LONGEVITY_5) \<in> set categories_scores"
    by (simp add: categories_scores_def)
  have h: "\<forall>k\<in>set LONGEVITY_5. 0 \<le> vote_count ?v k"
    by (simp add: LONGEVITY_5_def vote_count_def)
  have e: "\<exists>k\<in>set LONGEVITY_5. vote_count ?v k \<noteq> 0"
    by (simp add: LONGEVITY_5_def vote_count_def)
  have l: "length LONGEVITY_5 = 5" by (simp add: LONGEVITY_5_def)
  from score_zero_or_in_scale [of ?v] m h e l show ?thesis
    by (fastforce simp: list_all_iff)
qed

lemma fold_max_zero:
  "\<forall>c\<in>set cs. c = (0::int) \<Longrightarrow> fold max cs 0 = 0"
  by (induction cs) auto

lemma when_summary_all_zero:
  assumes "\<forall>k\<in>set keys. vote_count votes k = 0"
  shows "keys \<noteq> [] \<Longrightarrow> calculate_when_summary votes keys = Inr NO_DATA"
proof -
  assume ne: "keys \<noteq> []"
  then obtain k ks where keys: "keys = k # ks" by (cases keys) auto
  have c: "vote_count votes k = 0" using assms keys by simp
  have cs: "\<forall>c\<in>set (map (vote_count votes) ks). c = 0" using assms keys by simp
  have "fold max (map (vote_count votes) ks) (vote_count votes k) = 0"
    using fold_max_zero [OF cs] c by simp
  then show ?thesis
    by (simp add: calculate_when_summary_def keys Let_def)
qed

text \<open>
  C5: for every category, a tally that gives each declared option the count 0 has score
  0 and the "no data" marker as its summary.
\<close>

theorem all_zero_tally_is_no_data:
  "(\<forall>(score, keys) \<in> set categories_scores.
      (\<forall>k\<in>set keys. vote_count votes k = 0) \<longrightarrow> score votes keys = Inr 0)
   \<and> (\<forall>(summary, keys) \<in> set (categories_summaries fmt_2f).
      (\<forall>k\<in>set keys. vote_count votes k = 0) \<longrightarrow> summary votes keys = Inr NO_DATA)"
proof -
  have t: "(\<forall>k\<in>set keys. vote_count votes k = 0) \<longrightarrow> total_votes votes keys = 0" for keys
    using total_votes_all_zero by blast
  have w: "(\<forall>k\<in>set SEASON_TIME_6. vote_count votes k = 0)
      \<longrightarrow> calculate_when_summary votes SEASON_TIME_6 = Inr NO_DATA"
    using when_summary_all_zero [of SEASON_TIME_6 votes] by (simp add: SEASON_TIME_6_def)
  have scores: "\<forall>(score, keys) \<in> set categories_scores.
      (\<forall>k\<in>set keys. vote_count votes k = 0) \<longrightarrow> score votes keys = Inr 0"
    unfolding categories_scores_def using t
    by (simp add: calculate_rating_score_def calculate_longevity_score_def
        calculate_sillage_score_def calculate_gender_score_def calculate_value_score_def)
  have summaries: "\<forall>(summary, keys) \<in> set (categories_summaries fmt_2f).
      (\<forall>k\<in>set keys. vote_count votes k = 0) \<longrightarrow> summary votes keys = Inr NO_DATA"
    unfolding categories_summaries_def using t w
    by (simp add: calculate_rating_summary_def calculate_longevity_summary_def
        calculate_sillage_summary_def calculate_gender_summary_def calculate_value_summary_def)
  from scores summaries show ?thesis ..
qed

theorem all_zero_tally_is_no_data_witness:
  "list_all (\<lambda>k. vote_count [(''strong'', 0), (''other'', 7)] k = 0) SILLAGE_4
   \<and> calculate_sillage_score [(''strong'', 0), (''other'', 7)] SILLAGE_4 = Inr 0
   \<and> list_all (\<lambda>k. vote_count [(''strong'', 0), (''other'', 7)] k = 0) SEASON_TIME_6
   \<and> calculate_when_summary [(''strong'', 0), (''other'', 7)] SEASON_TIME_6 = Inr NO_DATA"
proof -
  let ?v = "[(''strong'', 0), (''other'', 7)] :: votes"
  have m1: "(calculate_sillage_score, SILLAGE_4) \<in> set categories_scores"
    by (simp add: categories_scores_def)
  have m2: "(calculate_when_summary, SEASON_TIME_6) \<in> set (categories_summaries (\<lambda>_. []))"
    by (simp add: categories_summaries_def)
  have h1: "\<forall>k\<in>set SILLAGE_4. vote_count ?v k = 0"
    by (simp add: SILLAGE_4_def vote_count_def)
  have h2: "\<forall>k\<in>set SEASON_TIME_6. vote_count ?v k = 0"
    by (simp add: SEASON_TIME_6_def vote_count_def)
  from all_zero_tally_is_no_data [of ?v "\<lambda>_. []"] m1 m2 h1 h2 show ?thesis
    by (fastforce simp: list_all_iff)
qed

text \<open>
  C1: the longevity score of the tally with one vote for "eternal" and of the tally with
  one vote for "poor". The specification expects 5 and 1; the weights by index give 1 and 5,
  against the docstring "poor=1" of \<^verbatim>\<open>calculate_longevity_summary\<close>.
\<close>

theorem longevity_score_by_index:
  "calculate_longevity_score
     [(''eternal'', 1), (''long'', 0), (''moderate'', 0), (''weak'', 0), (''poor'', 0)]
     LONGEVITY_5 = Inr 1
   \<and> calculate_longevity_score
     [(''eternal'', 0), (''long'', 0), (''moderate'', 0), (''weak'', 0), (''poor'', 1)]
     LONGEVITY_5 = Inr 5"
  by code_simp

text \<open>
  C8: the season and time summary of the tally with 100 votes for every season and 50
  for day and night. The threshold is 60, so day and night are not among the top options:
  the summary is not "year-round | anytime".
\<close>

theorem when_summary_example_counterexample:
  "calculate_when_summary
     [(''spring'', 100), (''summer'', 100), (''fall'', 100), (''winter'', 100),
      (''day'', 50), (''night'', 50)] SEASON_TIME_6 \<noteq> Inr ''year-round | anytime''"
  by code_simp

text \<open>
  C8, as amended: the summary of that tally is "year-round".
\<close>

theorem when_summary_example:
  "calculate_when_summary
     [(''spring'', 100), (''summer'', 100), (''fall'', 100), (''winter'', 100),
      (''day'', 50), (''night'', 50)] SEASON_TIME_6 = Inr ''year-round''"
  by code_simp

subsection \<open>Sort\<close>

lemma str_lt_irrefl: "\<not> str_lt s s"
  by (induction s) auto

lemma str_lt_asym: "str_lt s t \<Longrightarrow> \<not> str_lt t s"
  by (induction s t rule: str_lt.induct) (auto split: if_splits)

text \<open>
  C2: sorting by \<open>[(name, desc)]\<close>. The specification expects the perfume with the greater
  lower-cased name first. The key for "desc" is the pair (lower-cased name, True), which
  orders like the name alone: of two perfumes, the one with the smaller name comes first,
  whatever their order in the input.
\<close>

theorem name_desc_sorts_ascending:
  assumes "str_lt (lower (p_name p)) (lower (p_name q))"
  shows "sort_perfumes fmt_g ad [q, p] \<lparr>dimensions = [(''name'', ''desc'')]\<rparr> = Inr [p, q]
       \<and> sort_perfumes fmt_g ad [p, q] \<lparr>dimensions = [(''name'', ''desc'')]\<rparr> = Inr [p, q]"
proof -
  have ne: "lower (p_name p) \<noteq> lower (p_name q)"
    using assms str_lt_irrefl by auto
  have nlt: "\<not> str_lt (lower (p_name q)) (lower (p_name p))"
    using assms by (rule str_lt_asym)
  show ?thesis
    using assms ne nlt
    by (simp add: sort_perfumes_def sort_key_fn_def get_sort_value_def sorted_keyed_def)
qed

theorem name_desc_sorts_ascending_witness:
  "str_lt (lower (p_name (new_perfume ''1'' ''a''))) (lower (p_name (new_perfume ''2'' ''b'')))
   \<and> sort_perfumes (\<lambda>v. []) new_app_data [new_perfume ''2'' ''b'', new_perfume ''1'' ''a'']
        \<lparr>dimensions = [(''name'', ''desc'')]\<rparr>
      = Inr [new_perfume ''1'' ''a'', new_perfume ''2'' ''b'']"
proof -
  have h: "str_lt (lower (p_name (new_perfume ''1'' ''a''))) (lower (p_name (new_perfume ''2'' ''b'')))"
    by (simp add: new_perfume_def lower_def char_lower_def)
  from name_desc_sorts_ascending [OF h, of "\<lambda>v. []" new_app_data] h show ?thesis by simp
qed

subsection \<open>Derived state\<close>

lemma derive_state_not_wishlist:
  "fst (derive_state fmt_g p tag_names) \<noteq> ''Wishlist''"
  by (simp add: derive_state_def Let_def)

text \<open>
  C3: for every perfume and every list of tag names, the label of \<open>derive_state\<close> is
  not "Wishlist"; so the filter whose states facet is ["wishlist"], with every other facet
  at its default, matches no perfume.
\<close>

theorem wishlist_never_derived:
  "fst (derive_state fmt_g p tag_names) \<noteq> ''Wishlist''
   \<and> matches_filter fmt_g ad p (default_filter\<lparr>states := [''wishlist'']\<rparr>) = Inr False"
proof -
  have a: "fst (derive_state fmt_g p tag_names) \<noteq> ''Wishlist''" for tag_names
    by (rule derive_state_not_wishlist)
  have "states_block fmt_g ad p (default_filter\<lparr>states := [''wishlist'']\<rparr>)"
    using a [of "Some (map (get_tag_name ad) (tag_ids p))"]
    by (auto simp: states_block_def default_filter_def split: prod.splits)
  then show ?thesis using a
    by (simp add: matches_filter_def brands_block_def default_filter_def)
qed

theorem wishlist_never_derived_witness:
  "fst (derive_state (\<lambda>v. []) (new_perfume ''1'' ''a'') (Some [''Wishlist''])) = ''New''
   \<and> matches_filter (\<lambda>v. []) new_app_data (new_perfume ''1'' ''a'')
        (default_filter\<lparr>states := [''wishlist'']\<rparr>) = Inr False"
proof -
  have "fst (derive_state (\<lambda>v. []) (new_perfume ''1'' ''a'') (Some [''Wishlist''])) = ''New''"
    by (simp add: derive_state_def new_perfume_def lower_def char_lower_def)
  with wishlist_never_derived [of "\<lambda>v. []" "new_perfume ''1'' ''a''" "Some [''Wishlist'']" new_app_data]
  show ?thesis by simp
qed

subsection \<open>Filter\<close>

lemma weighted_sum_defined:
  "\<forall>k\<in>set ks. weights k \<noteq> None \<Longrightarrow> \<exists>ws. weighted_sum votes weights ks = Inr ws"
  by (induction ks) (auto simp: weight_lookup_def)

lemma index_weights_defined: "\<forall>k\<in>set keys. index_weights keys k \<noteq> None"
  using index_weights_bounds by fastforce

lemma rating_score_defined: "\<exists>r. calculate_rating_score votes RATING_5 = Inr r"
proof -
  have "\<forall>k\<in>set RATING_5. rating_weights RATING_5 k \<noteq> None"
    using rating_weights_bounds by fastforce
  from weighted_sum_defined [OF this] obtain ws where
    "weighted_sum votes (rating_weights RATING_5) RATING_5 = Inr ws" by blast
  moreover have "length RATING_5 = 5" by (simp add: RATING_5_def)
  ultimately show ?thesis by (simp add: calculate_rating_score_def Let_def)
qed

lemma longevity_score_defined: "\<exists>r. calculate_longevity_score votes keys = Inr r"
proof -
  from weighted_sum_defined [OF index_weights_defined] obtain ws where
    "weighted_sum votes (index_weights keys) keys = Inr ws" by blast
  then show ?thesis by (simp add: calculate_longevity_score_def Let_def)
qed

lemma sillage_score_defined: "\<exists>r. calculate_sillage_score votes keys = Inr r"
proof -
  from weighted_sum_defined [OF index_weights_defined] obtain ws where
    "weighted_sum votes (index_weights keys) keys = Inr ws" by blast
  then show ?thesis by (simp add: calculate_sillage_score_def Let_def)
qed

lemma gender_score_defined: "\<exists>r. calculate_gender_score votes keys = Inr r"
proof -
  from weighted_sum_defined [OF index_weights_defined] obtain ws where
    "weighted_sum votes (index_weights keys) keys = Inr ws" by blast
  then show ?thesis by (simp add: calculate_gender_score_def Let_def)
qed

lemma value_score_defined: "\<exists>r. calculate_value_score votes keys = Inr r"
proof -
  from weighted_sum_defined [OF index_weights_defined] obtain ws where
    "weighted_sum votes (index_weights keys) keys = Inr ws" by blast
  then show ?thesis by (simp add: calculate_value_score_def Let_def)
qed

lemma rating_block_spec:
  "calculate_rating_score (get_block (fragrantica p) ''rating_votes'') RATING_5 = Inr r \<Longrightarrow>
   rating_block p c =
     Inr (\<not> ((0 < rating_min c \<or> rating_max c < 5 \<or> rating_exclude c)
              \<longrightarrow> spec_range_pass (rating_min c) (rating_max c) (rating_exclude c) r))"
  by (auto simp: rating_block_def spec_range_pass_def Let_def)

lemma longevity_block_spec:
  "calculate_longevity_score (get_block (fragrantica p) ''longevity_votes'') LONGEVITY_5 = Inr r \<Longrightarrow>
   longevity_block p c =
     Inr (\<not> ((0 < longevity_min c \<or> longevity_max c < 5 \<or> longevity_exclude c)
              \<longrightarrow> spec_range_pass (longevity_min c) (longevity_max c) (longevity_exclude c) r))"
  by (auto simp: longevity_block_def spec_range_pass_def Let_def)

lemma sillage_block_spec:
  "calculate_sillage_score (get_block (fragrantica p) ''sillage_votes'') SILLAGE_4 = Inr r \<Longrightarrow>
   sillage_block p c =
     Inr (\<not> ((0 < sillage_min c \<or> sillage_max c < 4 \<or> sillage_exclude c)
              \<longrightarrow> spec_range_pass (sillage_min c) (sillage_max c) (sillage_exclude c) r))"
  by (auto simp: sillage_block_def spec_range_pass_def Let_def)

lemma value_block_spec:
  "calculate_value_score (get_block (fragrantica p) ''value_votes'') VALUE_5 = Inr r \<Longrightarrow>
   value_block p c =
     Inr (\<not> ((0 < value_min c \<or> value_max c < 5 \<or> value_exclude c)
              \<longrightarrow> spec_range_pass (value_min c) (value_max c) (value_exclude c) r))"
  by (auto simp: value_block_def spec_range_pass_def Let_def)

lemma first_reject_Inr:
  "first_reject [Inr a, Inr b, Inr c, Inr d] = Inr (a \<or> b \<or> c \<or> d)"
  by (cases a; cases b; cases c; cases d) simp_all

text \<open>
  C4: the filter accepts a perfume exactly when no block rejects it, and each active
  score-range block (rating, longevity, sillage, value) accepts exactly when the
  specification's condition holds of the category's score: in include mode the score is
  positive and within the bounds, in exclude mode it is not. A score of 0 fails include
  mode and passes exclude mode, whatever the bounds.
\<close>

theorem score_range_facets:
  "\<exists>r l s v.
     calculate_rating_score (get_block (fragrantica p) ''rating_votes'') RATING_5 = Inr r
   \<and> calculate_longevity_score (get_block (fragrantica p) ''longevity_votes'') LONGEVITY_5 = Inr l
   \<and> calculate_sillage_score (get_block (fragrantica p) ''sillage_votes'') SILLAGE_4 = Inr s
   \<and> calculate_value_score (get_block (fragrantica p) ''value_votes'') VALUE_5 = Inr v
   \<and> matches_filter fmt_g ad p c =
       Inr (\<not> brands_block ad p c \<and> \<not> states_block fmt_g ad p c \<and> \<not> when_block p c
          \<and> ((0 < rating_min c \<or> rating_max c < 5 \<or> rating_exclude c)
               \<longrightarrow> spec_range_pass (rating_min c) (rating_max c) (rating_exclude c) r)
          \<and> ((0 < longevity_min c \<or> longevity_max c < 5 \<or> longevity_exclude c)
               \<longrightarrow> spec_range_pass (longevity_min c) (longevity_max c) (longevity_exclude c) l)
          \<and> ((0 < sillage_min c \<or> sillage_max c < 4 \<or> sillage_exclude c)
               \<longrightarrow> spec_range_pass (sillage_min c) (sillage_max c) (sillage_exclude c) s)
          \<and> ((0 < value_min c \<or> value_max c < 5 \<or> value_exclude c)
               \<longrightarrow> spec_range_pass (value_min c) (value_max c) (value_exclude c) v)
          \<and> \<not> gender_block p c \<and> \<not> tags_block ad p c \<and> \<not> vote_status_block p c)
   \<and> \<not> spec_range_pass lo hi False 0 \<and> spec_range_pass lo hi True 0"
proof -
  obtain r where r: "calculate_rating_score (get_block (fragrantica p) ''rating_votes'') RATING_5 = Inr r"
    using rating_score_defined by blast
  obtain l where l: "calculate_longevity_score (get_block (fragrantica p) ''longevity_votes'') LONGEVITY_5 = Inr l"
    using longevity_score_defined by blast
  obtain s where s: "calculate_sillage_score (get_block (fragrantica p) ''sillage_votes'') SILLAGE_4 = Inr s"
    using sillage_score_defined by blast
  obtain v where v: "calculate_value_score (get_block (fragrantica p) ''value_votes'') VALUE_5 = Inr v"
    using value_score_defined by blast
  have m: "matches_filter fmt_g ad p c =
       Inr (\<not> brands_block ad p c \<and> \<not> states_block fmt_g ad p c \<and> \<not> when_block p c
          \<and> ((0 < rating_min c \<or> rating_max c < 5 \<or> rating_exclude c)
               \<longrightarrow> spec_range_pass (rating_min c) (rating_max c) (rating_exclude c) r)
          \<and> ((0 < longevity_min c \<or> longevity_max c < 5 \<or> longevity_exclude c)
               \<longrightarrow> spec_range_pass (longevity_min c) (longevity_max c) (longevity_exclude c) l)
          \<and> ((0 < sillage_min c \<or> sillage_max c < 4 \<or> sillage_exclude c)
               \<longrightarrow> spec_range_pass (sillage_min c) (sillage_max c) (sillage_exclude c) s)
          \<and> ((0 < value_min c \<or> value_max c < 5 \<or> value_exclude c)
               \<longrightarrow> spec_range_pass (value_min c) (value_max c) (value_exclude c) v)
          \<and> \<not> gender_block p c \<and> \<not> tags_block ad p c \<and> \<not> vote_status_block p c)"
    unfolding matches_filter_def
      rating_block_spec [OF r] longevity_block_spec [OF l]
      sillage_block_spec [OF s] value_block_spec [OF v] first_reject_Inr
    by (simp split: bool.splits)
  have z: "\<not> spec_range_pass lo hi False 0 \<and> spec_range_pass lo hi True 0"
    by (simp add: spec_range_pass_def)
  from r l s v m z show ?thesis by blast
qed

lemma rating_score_example: "calculate_rating_score
      (get_block [(''rating_votes'', Block [(''love'', 3), (''hate'', 1)])] ''rating_votes'')
      RATING_5 = Inr 4"
    by code_simp

lemma default_blocks:
  assumes "brands c = []" "states c = []" "seasons c = []" "times_sel c = []"
    "gender_preference c = []" "tags c = []" "\<not> has_my_vote c" "\<not> has_fragrantica c"
  shows "\<not> brands_block ad p c" "\<not> states_block fmt_g ad p c" "\<not> when_block p c"
    "\<not> gender_block p c" "\<not> tags_block ad p c" "\<not> vote_status_block p c"
  using assms
  by (simp_all add: brands_block_def states_block_def when_block_def
      gender_block_def tags_block_def vote_status_block_def)

theorem score_range_facets_witness:
  "matches_filter (\<lambda>v. []) new_app_data (new_perfume ''1'' ''a'')
      (default_filter\<lparr>rating_min := 3\<rparr>) = Inr False
   \<and> matches_filter (\<lambda>v. []) new_app_data (new_perfume ''1'' ''a'')
      (default_filter\<lparr>rating_min := 3, rating_exclude := True\<rparr>) = Inr True
   \<and> matches_filter (\<lambda>v. []) new_app_data
      ((new_perfume ''2'' ''b'')\<lparr>fragrantica := [(''rating_votes'', Block [(''love'', 3), (''hate'', 1)])]\<rparr>)
      (default_filter\<lparr>rating_min := 3\<rparr>) = Inr True"
proof -
  let ?p = "new_perfume ''1'' ''a''"
  let ?q = "(new_perfume ''2'' ''b'')\<lparr>fragrantica := [(''rating_votes'', Block [(''love'', 3), (''hate'', 1)])]\<rparr>"
  let ?c = "default_filter\<lparr>rating_min := 3\<rparr>"
  let ?d = "default_filter\<lparr>rating_min := 3, rating_exclude := True\<rparr>"
  have r0: "calculate_rating_score (get_block (fragrantica ?p) ''rating_votes'') RATING_5 = Inr 0"
    by (simp add: new_perfume_def get_block_def calculate_rating_score_def total_votes_def
        vote_count_def RATING_5_def)
  have bc: "\<not> brands_block new_app_data p' ?c" "\<not> states_block (\<lambda>v. []) new_app_data p' ?c"
    "\<not> when_block p' ?c" "\<not> gender_block p' ?c" "\<not> tags_block new_app_data p' ?c"
    "\<not> vote_status_block p' ?c" for p'
    by (rule default_blocks; simp add: default_filter_def)+
  have bd: "\<not> brands_block new_app_data p' ?d" "\<not> states_block (\<lambda>v. []) new_app_data p' ?d"
    "\<not> when_block p' ?d" "\<not> gender_block p' ?d" "\<not> tags_block new_app_data p' ?d"
    "\<not> vote_status_block p' ?d" for p'
    by (rule default_blocks; simp add: default_filter_def)+
  have fc: "rating_min ?c = 3" "rating_max ?c = 5" "rating_exclude ?c = False"
      "longevity_min ?c = 0" "longevity_max ?c = 5" "longevity_exclude ?c = False"
      "sillage_min ?c = 0" "sillage_max ?c = 4" "sillage_exclude ?c = False"
      "value_min ?c = 0" "value_max ?c = 5" "value_exclude ?c = False"
    by (simp_all add: default_filter_def)
  have fd: "rating_min ?d = 3" "rating_max ?d = 5" "rating_exclude ?d = True"
      "longevity_min ?d = 0" "longevity_max ?d = 5" "longevity_exclude ?d = False"
      "sillage_min ?d = 0" "sillage_max ?d = 4" "sillage_exclude ?d = False"
      "value_min ?d = 0" "value_max ?d = 5" "value_exclude ?d = False"
    by (simp_all add: default_filter_def)
  have 1: "matches_filter (\<lambda>v. []) new_app_data ?p ?c = Inr False"
    using score_range_facets [of ?p "\<lambda>v. []" new_app_data ?c 0 0]
    by (simp add: r0 bc fc spec_range_pass_def)
  have 2: "matches_filter (\<lambda>v. []) new_app_data ?p ?d = Inr True"
    using score_range_facets [of ?p "\<lambda>v. []" new_app_data ?d 0 0]
    by (simp add: r0 bd fd spec_range_pass_def)
  have 3: "matches_filter (\<lambda>v. []) new_app_data ?q ?c = Inr True"
    using score_range_facets [of ?q "\<lambda>v. []" new_app_data ?c 0 0]
    by (simp add: rating_score_example bc fc spec_range_pass_def)
  from 1 2 3 show ?thesis by (intro conjI)
qed

subsection \<open>Reference tables: delete\<close>

lemma keys_delete: "map fst (AList.delete k al) = filter (\<lambda>k'. k' \<noteq> k) (map fst al)"
  by (induction al) auto

lemma del_current_keys:
  "del_current t sid ad = Inr ad' \<Longrightarrow>
   current_keys t ad' = filter (\<lambda>k. k \<noteq> sid) (current_keys t ad)"
  by (cases t) (auto simp: del_current_def current_keys_def keys_delete split: if_splits)

lemma del_current_get:
  "del_current t sid ad = Inr ad' \<Longrightarrow>
   current_get t ad' k = (if k = sid then None else current_get t ad k)"
  by (cases t) (auto simp: del_current_def current_get_def AList.delete_conv split: if_splits)

lemma del_current_perfumes:
  "del_current t sid ad = Inr ad' \<Longrightarrow> perfumes ad' = perfumes ad"
  by (cases t) (auto simp: del_current_def split: if_splits)

lemma del_current_defined:
  "sid \<in> set (current_keys t ad) \<Longrightarrow> \<exists>ad'. del_current t sid ad = Inr ad'"
  by (simp add: del_current_def)

lemma save_keys: "current_keys t (save clock ad) = current_keys t ad"
  by (cases t) (simp_all add: save_def current_keys_def)

lemma save_get: "current_get t (save clock ad) k = current_get t ad k"
  by (cases t) (simp_all add: save_def current_get_def)

lemma save_length: "length (perfumes (save clock ad)) = length (perfumes ad)"
  by (simp add: save_def)

lemma save_nth:
  "i < length (perfumes ad) \<Longrightarrow>
   perfumes (save clock ad) ! i = (perfumes ad ! i)\<lparr>updated_at := clock i\<rparr>"
  by (simp add: save_def)

text \<open>
  C7: deleting one id. While its usage count is positive the deletion is refused, the
  warning names the item with its count, and the state is unchanged. With usage count 0
  (and the user's confirmation) the entry is removed from the table, the other entries
  stay, and the perfumes are as before apart from the time stamp of the save that ends
  the deletion. The usage count is the number of perfumes that hold the id (brand,
  concentration, tag, outlet), or the number of events that hold it (purchase type).
\<close>

theorem delete_only_when_unused:
  "(0 < count_usage t ad sid \<longrightarrow>
      delete_selected t [sid] confirm clock ad =
        Inr (Cannot_delete
               [get_item_name t ad sid @ '' ('' @ str_of_nat (count_usage t ad sid) @ '')''], ad))
   \<and> (count_usage t ad sid = 0 \<and> sid \<in> set (current_keys t ad) \<longrightarrow>
        (\<exists>ad'. delete_selected t [sid] True clock ad = Inr (Deleted, ad')
           \<and> current_keys t ad' = filter (\<lambda>k. k \<noteq> sid) (current_keys t ad)
           \<and> (\<forall>k. current_get t ad' k = (if k = sid then None else current_get t ad k))
           \<and> length (perfumes ad') = length (perfumes ad)
           \<and> (\<forall>i < length (perfumes ad).
                 perfumes ad' ! i = (perfumes ad ! i)\<lparr>updated_at := clock i\<rparr>)))
   \<and> count_usage t ad sid =
        (if t = Purchase_types
         then length (filter (\<lambda>e. purchase_type_id e = sid) (concat (map events (perfumes ad))))
         else length (filter (\<lambda>p. sid \<in> set (refs_of t p)) (perfumes ad)))"
proof -
  have a: "0 < count_usage t ad sid \<longrightarrow>
      delete_selected t [sid] confirm clock ad =
        Inr (Cannot_delete
               [get_item_name t ad sid @ '' ('' @ str_of_nat (count_usage t ad sid) @ '')''], ad)"
    by (simp add: delete_selected_def used_items_def)
  have b: "count_usage t ad sid = 0 \<and> sid \<in> set (current_keys t ad) \<longrightarrow>
        (\<exists>ad'. delete_selected t [sid] True clock ad = Inr (Deleted, ad')
           \<and> current_keys t ad' = filter (\<lambda>k. k \<noteq> sid) (current_keys t ad)
           \<and> (\<forall>k. current_get t ad' k = (if k = sid then None else current_get t ad k))
           \<and> length (perfumes ad') = length (perfumes ad)
           \<and> (\<forall>i < length (perfumes ad).
                 perfumes ad' ! i = (perfumes ad ! i)\<lparr>updated_at := clock i\<rparr>))"
  proof
    assume h: "count_usage t ad sid = 0 \<and> sid \<in> set (current_keys t ad)"
    then obtain ad1 where d: "del_current t sid ad = Inr ad1"
      using del_current_defined by blast
    have p1: "perfumes ad1 = perfumes ad" by (rule del_current_perfumes [OF d])
    have 1: "delete_selected t [sid] True clock ad = Inr (Deleted, save clock ad1)"
      using h d by (simp add: delete_selected_def used_items_def unused_items_def)
    have 2: "current_keys t (save clock ad1) = filter (\<lambda>k. k \<noteq> sid) (current_keys t ad)"
      using del_current_keys [OF d] by (simp add: save_keys)
    have 3: "\<forall>k. current_get t (save clock ad1) k
               = (if k = sid then None else current_get t ad k)"
      using del_current_get [OF d] by (simp add: save_get)
    have 4: "length (perfumes (save clock ad1)) = length (perfumes ad)"
      using p1 by (simp add: save_length)
    have 5: "\<forall>i < length (perfumes ad).
               perfumes (save clock ad1) ! i = (perfumes ad ! i)\<lparr>updated_at := clock i\<rparr>"
      using save_nth [of _ ad1 clock] p1 by simp
    from 1 2 3 4 5
    show "\<exists>ad'. delete_selected t [sid] True clock ad = Inr (Deleted, ad')
           \<and> current_keys t ad' = filter (\<lambda>k. k \<noteq> sid) (current_keys t ad)
           \<and> (\<forall>k. current_get t ad' k = (if k = sid then None else current_get t ad k))
           \<and> length (perfumes ad') = length (perfumes ad)
           \<and> (\<forall>i < length (perfumes ad).
                 perfumes ad' ! i = (perfumes ad ! i)\<lparr>updated_at := clock i\<rparr>)"
      by blast
  qed
  have c: "count_usage t ad sid =
        (if t = Purchase_types
         then length (filter (\<lambda>e. purchase_type_id e = sid) (concat (map events (perfumes ad))))
         else length (filter (\<lambda>p. sid \<in> set (refs_of t p)) (perfumes ad)))"
    by (cases t) (auto simp: count_usage_def refs_of_def intro: arg_cong [where f = length] filter_cong)
  from a b c show ?thesis by blast
qed

theorem delete_only_when_unused_witness:
  "count_usage Brands example_data ''idA'' = 1
   \<and> delete_selected Brands [''idA''] True (\<lambda>i. 7) example_data
       = Inr (Cannot_delete [''Chanel (1)''], example_data)
   \<and> count_usage Brands example_data ''idC'' = 0
   \<and> (\<exists>ad'. delete_selected Brands [''idC''] True (\<lambda>i. 7) example_data = Inr (Deleted, ad')
          \<and> current_keys Brands ad' = [''idA'', ''idB'']
          \<and> current_get Brands ad' ''idC'' = None
          \<and> current_get Brands ad' ''idA'' = Some (Inl ''Chanel'')
          \<and> perfumes ad' ! 0 = (perfumes example_data ! 0)\<lparr>updated_at := 7\<rparr>)"
proof -
  have u1: "count_usage Brands example_data ''idA'' = 1"
    by (simp add: count_usage_def example_data_def new_app_data_def new_perfume_def)
  have u0: "count_usage Brands example_data ''idC'' = 0"
    by (simp add: count_usage_def example_data_def new_app_data_def new_perfume_def)
  have k: "current_keys Brands example_data = [''idA'', ''idB'', ''idC'']"
    by (simp add: current_keys_def example_data_def new_app_data_def)
  have g: "current_get Brands example_data ''idA'' = Some (Inl ''Chanel'')"
    by (simp add: current_get_def example_data_def new_app_data_def)
  have n: "get_item_name Brands example_data ''idA'' = ''Chanel''"
    by (simp add: get_item_name_def name_or_empty_def example_data_def new_app_data_def)
  have l: "0 < length (perfumes example_data)"
    by (simp add: example_data_def new_app_data_def)
  have s1: "str_of_nat (Suc 0) = ''1''" by code_simp
  have "0 < count_usage Brands example_data ''idA'' \<longrightarrow>
      delete_selected Brands [''idA''] True (\<lambda>i. 7) example_data =
        Inr (Cannot_delete
               [get_item_name Brands example_data ''idA'' @ '' (''
                  @ str_of_nat (count_usage Brands example_data ''idA'') @ '')''], example_data)"
    using delete_only_when_unused [of Brands example_data "''idA''" True "\<lambda>i. 7"]
    by (rule conjunct1)
  then have a: "delete_selected Brands [''idA''] True (\<lambda>i. 7) example_data
       = Inr (Cannot_delete [''Chanel (1)''], example_data)"
    by (simp add: u1 n s1)
  have "count_usage Brands example_data ''idC'' = 0
          \<and> ''idC'' \<in> set (current_keys Brands example_data) \<longrightarrow>
        (\<exists>ad'. delete_selected Brands [''idC''] True (\<lambda>i. 7) example_data = Inr (Deleted, ad')
           \<and> current_keys Brands ad'
               = filter (\<lambda>k. k \<noteq> ''idC'') (current_keys Brands example_data)
           \<and> (\<forall>k. current_get Brands ad' k
                  = (if k = ''idC'' then None else current_get Brands example_data k))
           \<and> length (perfumes ad') = length (perfumes example_data)
           \<and> (\<forall>i < length (perfumes example_data).
                 perfumes ad' ! i = (perfumes example_data ! i)\<lparr>updated_at := 7\<rparr>))"
    using delete_only_when_unused [of Brands example_data "''idC''" True "\<lambda>i. 7"] by blast
  then have b: "\<exists>ad'. delete_selected Brands [''idC''] True (\<lambda>i. 7) example_data
                       = Inr (Deleted, ad')
          \<and> current_keys Brands ad' = [''idA'', ''idB'']
          \<and> current_get Brands ad' ''idC'' = None
          \<and> current_get Brands ad' ''idA'' = Some (Inl ''Chanel'')
          \<and> perfumes ad' ! 0 = (perfumes example_data ! 0)\<lparr>updated_at := 7\<rparr>"
    using l by (auto simp: u0 k g)
  from u1 a u0 b show ?thesis by (intro conjI)
qed

subsection \<open>Reference tables: merge of a single id\<close>

text \<open>
  C9, as amended: a merge of a single id is refused with a warning and changes nothing,
  not even the value of that id.
\<close>

theorem merge_of_one_id_is_rejected:
  "merge_selected t [sid] answer clock ad = Inr (Select_multiple, ad)"
  by (simp add: merge_selected_def)

text \<open>
  C9: the specification lets the entry of the single id take the keep value. With the table
  idA = "A" and the keep value "B", no outcome of the merge holds "B" for idA.
\<close>

theorem merge_of_one_id_counterexample:
  "\<not> (\<exists>out ad'. merge_selected Brands [''idA''] (Some ''B'') (\<lambda>i. 0)
                    (new_app_data\<lparr>brands_map := [(''idA'', ''A'')]\<rparr>) = Inr (out, ad')
                \<and> current_get Brands ad' ''idA'' = Some (kept_value Brands ''B''))"
  by (simp add: merge_selected_def current_get_def kept_value_def new_app_data_def)

subsection \<open>First-seen order\<close>

lemma fromkeys_snoc:
  "fromkeys (xs @ [x]) = (if x \<in> set (fromkeys xs) then fromkeys xs else fromkeys xs @ [x])"
  by (simp add: fromkeys_def)

lemma fromkeys_remdups: "fromkeys xs = rev (remdups (rev xs))"
proof (induction xs rule: rev_induct)
  case Nil
  then show ?case by (simp add: fromkeys_def)
next
  case (snoc x xs)
  then show ?case by (simp add: fromkeys_snoc)
qed

lemma set_fromkeys: "set (fromkeys xs) = set xs"
  by (simp add: fromkeys_remdups)

lemma distinct_fromkeys: "distinct (fromkeys xs)"
  by (simp add: fromkeys_remdups)

lemma fromkeys_distinct: "distinct xs \<Longrightarrow> fromkeys xs = xs"
  by (simp add: fromkeys_remdups distinct_remdups_id)

lemma fromkeys_map_fromkeys: "fromkeys (map f (fromkeys xs)) = fromkeys (map f xs)"
  by (simp add: fromkeys_remdups rev_map remdups_map_remdups)

text \<open>The first occurrence of each element stays, in place; the later ones go.\<close>

lemma remdups_snoc: "remdups (ys @ [x]) = filter (\<lambda>y. y \<noteq> x) (remdups ys) @ [x]"
  by (induction ys) auto

lemma fromkeys_Cons: "fromkeys (x # xs) = x # filter (\<lambda>y. y \<noteq> x) (fromkeys xs)"
  by (simp add: fromkeys_remdups remdups_snoc rev_filter)

subsection \<open>The merge loop on one list of ids\<close>

lemma fold_rewrite_id_list:
  "fold (\<lambda>sid ids. if sid = target then ids else rewrite_id_list sid target ids) sids L =
     (if set L \<inter> (set sids - {target}) = {} then L
      else fromkeys (map (\<lambda>x. if x \<in> set sids - {target} then target else x) L))"
proof (induction sids arbitrary: L)
  case Nil
  then show ?case by simp
next
  case (Cons sid sids)
  let ?F = "\<lambda>sid ids. if sid = target then ids else rewrite_id_list sid target ids"
  let ?O = "set sids - {target}"
  let ?O' = "set (sid # sids) - {target}"
  let ?R = "\<lambda>A L. if set L \<inter> A = {} then L
                 else fromkeys (map (\<lambda>x. if x \<in> A then target else x) L)"
  have IH: "fold ?F sids M = ?R ?O M" for M by (rule Cons.IH)
  show ?case
  proof (cases "sid = target \<or> sid \<notin> set L")
    case True
    then have a: "set L \<inter> ?O' = set L \<inter> ?O" by auto
    have b: "map (\<lambda>x. if x \<in> ?O' then target else x) L
           = map (\<lambda>x. if x \<in> ?O then target else x) L"
      using True by (intro map_cong) auto
    have "fold ?F (sid # sids) L = fold ?F sids L"
      using True by (auto simp: rewrite_id_list_def)
    also have "\<dots> = ?R ?O L" by (rule IH)
    also have "\<dots> = ?R ?O' L" by (simp only: a b)
    finally show ?thesis .
  next
    case False
    then have ne: "sid \<noteq> target" and mem: "sid \<in> set L" by auto
    let ?L1 = "fromkeys (map (\<lambda>x. if x = sid then target else x) L)"
    have touched: "set L \<inter> ?O' \<noteq> {}" using ne mem by auto
    have "fold ?F (sid # sids) L = fold ?F sids ?L1"
      using ne mem by (simp add: rewrite_id_list_def)
    also have "\<dots> = ?R ?O ?L1" by (rule IH)
    also have "\<dots> = fromkeys (map (\<lambda>x. if x \<in> ?O' then target else x) L)"
    proof (cases "set ?L1 \<inter> ?O = {}")
      case True
      have "map (\<lambda>x. if x = sid then target else x) L
          = map (\<lambda>x. if x \<in> ?O' then target else x) L"
      proof (intro map_cong refl)
        fix x assume x: "x \<in> set L"
        show "(if x = sid then target else x) = (if x \<in> ?O' then target else x)"
        proof (cases "x = sid")
          case True
          then show ?thesis using ne by simp
        next
          case False
          then have "x \<in> set ?L1" using x by (auto simp: set_fromkeys)
          then have "x \<notin> ?O" using True by auto
          then show ?thesis using False by auto
        qed
      qed
      then have "?L1 = fromkeys (map (\<lambda>x. if x \<in> ?O' then target else x) L)"
        by (simp only:)
      moreover have "?R ?O ?L1 = ?L1" using True by simp
      ultimately show ?thesis by (simp only:)
    next
      case False
      have "map (\<lambda>x. if x \<in> ?O then target else x) (map (\<lambda>x. if x = sid then target else x) L)
          = map (\<lambda>x. if x \<in> ?O' then target else x) L"
        by (auto simp: o_def)
      then have "fromkeys (map (\<lambda>x. if x \<in> ?O then target else x) ?L1)
          = fromkeys (map (\<lambda>x. if x \<in> ?O' then target else x) L)"
        by (simp only: fromkeys_map_fromkeys)
      moreover have "?R ?O ?L1 = fromkeys (map (\<lambda>x. if x \<in> ?O then target else x) ?L1)"
        using False by simp
      ultimately show ?thesis by (simp only:)
    qed
    also have "\<dots> = ?R ?O' L" using touched by simp
    finally show ?thesis .
  qed
qed

subsection \<open>The merge loop on a perfume\<close>

lemma refs_fold_lists:
  "t = Tags \<or> t = Outlets \<Longrightarrow>
   refs_of t (fold (\<lambda>sid p. if sid = target then p else rewrite_refs t sid target p) sids p) =
     fold (\<lambda>sid ids. if sid = target then ids else rewrite_id_list sid target ids) sids
       (refs_of t p)"
  by (induction sids arbitrary: p) (auto simp: refs_of_def rewrite_refs_def)

lemma refs_fold_scalars:
  "t = Brands \<or> t = Concentrations \<or> t = Purchase_types \<Longrightarrow>
   refs_of t (fold (\<lambda>sid p. if sid = target then p else rewrite_refs t sid target p) sids p) =
     map (\<lambda>x. if x \<in> set sids - {target} then target else x) (refs_of t p)"
proof (induction sids arbitrary: p)
  case Nil
  then show ?case by simp
next
  case (Cons sid sids)
  let ?S = "\<lambda>sid p. if sid = target then p else rewrite_refs t sid target p"
  have one: "refs_of t (?S sid p) =
      map (\<lambda>x. if x = sid \<and> sid \<noteq> target then target else x) (refs_of t p)"
    using Cons.prems by (auto simp: refs_of_def rewrite_refs_def o_def)
  have "refs_of t (fold ?S (sid # sids) p) = refs_of t (fold ?S sids (?S sid p))" by simp
  also have "\<dots> = map (\<lambda>x. if x \<in> set sids - {target} then target else x)
                     (refs_of t (?S sid p))"
    using Cons.prems by (rule Cons.IH)
  also have "\<dots> = map (\<lambda>x. if x \<in> set (sid # sids) - {target} then target else x) (refs_of t p)"
    unfolding one by (auto simp: o_def)
  finally show ?case .
qed

lemma refs_fold_other:
  "t' \<noteq> t \<Longrightarrow>
   refs_of t' (fold (\<lambda>sid p. if sid = target then p else rewrite_refs t sid target p) sids p) =
     refs_of t' p"
proof (induction sids arbitrary: p)
  case Nil
  then show ?case by simp
next
  case (Cons sid sids)
  have "refs_of t' (rewrite_refs t sid target p) = refs_of t' p"
    using Cons.prems by (cases t; cases t') (auto simp: refs_of_def rewrite_refs_def)
  then show ?case using Cons by simp
qed

lemma refs_after_merge:
  assumes "target \<notin> A" and "A = set sids - {target}"
  shows "refs_of t (fold (\<lambda>sid p. if sid = target then p else rewrite_refs t sid target p) sids p) =
     (if (t = Tags \<or> t = Outlets) \<and> set (refs_of t p) \<inter> A \<noteq> {}
      then fromkeys (map (\<lambda>x. if x \<in> A then target else x) (refs_of t p))
      else map (\<lambda>x. if x \<in> A then target else x) (refs_of t p))"
proof (cases "t = Tags \<or> t = Outlets")
  case True
  have id: "set L \<inter> A = {} \<Longrightarrow> map (\<lambda>x. if x \<in> A then target else x) L = L" for L
    by (induction L) auto
  show ?thesis
    using True id [of "refs_of t p"]
    by (simp add: refs_fold_lists fold_rewrite_id_list assms(2))
next
  case False
  then have "t = Brands \<or> t = Concentrations \<or> t = Purchase_types" by (cases t) auto
  then show ?thesis using False by (simp add: refs_fold_scalars assms(2))
qed

subsection \<open>The merge loop on the state\<close>

lemma current_keys_perfumes [simp]:
  "current_keys t (ad\<lparr>perfumes := ps\<rparr>) = current_keys t ad"
  by (cases t) (simp_all add: current_keys_def)

lemma current_get_perfumes [simp]:
  "current_get t (ad\<lparr>perfumes := ps\<rparr>) k = current_get t ad k"
  by (cases t) (simp_all add: current_get_def)

lemma del_current_other:
  "del_current t sid ad = Inr ad' \<Longrightarrow> t' \<noteq> t \<Longrightarrow>
   current_keys t' ad' = current_keys t' ad \<and> current_get t' ad' k = current_get t' ad k"
  by (cases t; cases t')
    (auto simp: del_current_def current_keys_def current_get_def split: if_splits)

lemma merge_loop_result:
  assumes "distinct sids"
    and "\<forall>sid\<in>set sids. sid \<noteq> target \<longrightarrow> sid \<in> set (current_keys t ad)"
  shows "\<exists>ad'. merge_loop t target sids ad = Inr ad'
     \<and> perfumes ad' =
         map (fold (\<lambda>sid p. if sid = target then p else rewrite_refs t sid target p) sids)
           (perfumes ad)
     \<and> current_keys t ad' = filter (\<lambda>k. k \<notin> set sids - {target}) (current_keys t ad)
     \<and> (\<forall>k. current_get t ad' k
            = (if k \<in> set sids - {target} then None else current_get t ad k))
     \<and> (\<forall>t' k. t' \<noteq> t \<longrightarrow> current_keys t' ad' = current_keys t' ad
            \<and> current_get t' ad' k = current_get t' ad k)"
  using assms
proof (induction sids arbitrary: ad)
  case Nil
  then show ?case by simp
next
  case (Cons sid sids)
  let ?S = "\<lambda>sid p. if sid = target then p else rewrite_refs t sid target p"
  have d: "distinct sids" and nin: "sid \<notin> set sids" using Cons.prems(1) by auto
  show ?case
  proof (cases "sid = target")
    case True
    have k: "\<forall>s\<in>set sids. s \<noteq> target \<longrightarrow> s \<in> set (current_keys t ad)"
      using Cons.prems(2) by simp
    from Cons.IH [OF d k] obtain ad' where r:
      "merge_loop t target sids ad = Inr ad'"
      "perfumes ad' = map (fold ?S sids) (perfumes ad)"
      "current_keys t ad' = filter (\<lambda>k. k \<notin> set sids - {target}) (current_keys t ad)"
      "\<forall>k. current_get t ad' k = (if k \<in> set sids - {target} then None else current_get t ad k)"
      "\<forall>t' k. t' \<noteq> t \<longrightarrow> current_keys t' ad' = current_keys t' ad
            \<and> current_get t' ad' k = current_get t' ad k"
      by blast
    have s: "set (sid # sids) - {target} = set sids - {target}" using True by auto
    show ?thesis
      unfolding s using True r by simp
  next
    case False
    let ?ad1 = "ad\<lparr>perfumes := map (rewrite_refs t sid target) (perfumes ad)\<rparr>"
    have "sid \<in> set (current_keys t ?ad1)" using Cons.prems(2) False by simp
    then obtain ad2 where del: "del_current t sid ?ad1 = Inr ad2"
      using del_current_defined by blast
    have k2: "current_keys t ad2 = filter (\<lambda>k. k \<noteq> sid) (current_keys t ad)"
      using del_current_keys [OF del] by simp
    have g2: "current_get t ad2 k = (if k = sid then None else current_get t ad k)" for k
      using del_current_get [OF del, of k] by simp
    have p2: "perfumes ad2 = map (rewrite_refs t sid target) (perfumes ad)"
      using del_current_perfumes [OF del] by simp
    have o2: "t' \<noteq> t \<Longrightarrow> current_keys t' ad2 = current_keys t' ad
                \<and> current_get t' ad2 k = current_get t' ad k" for t' k
      using del_current_other [OF del, of t' k] by simp
    have k: "\<forall>s\<in>set sids. s \<noteq> target \<longrightarrow> s \<in> set (current_keys t ad2)"
      using Cons.prems(2) nin by (auto simp: k2)
    from Cons.IH [OF d k] obtain ad' where r:
      "merge_loop t target sids ad2 = Inr ad'"
      "perfumes ad' = map (fold ?S sids) (perfumes ad2)"
      "current_keys t ad' = filter (\<lambda>k. k \<notin> set sids - {target}) (current_keys t ad2)"
      "\<forall>k. current_get t ad' k = (if k \<in> set sids - {target} then None else current_get t ad2 k)"
      "\<forall>t' k. t' \<noteq> t \<longrightarrow> current_keys t' ad' = current_keys t' ad2
            \<and> current_get t' ad' k = current_get t' ad2 k"
      by blast
    have 1: "merge_loop t target (sid # sids) ad = Inr ad'"
      using False del r(1) by simp
    have 2: "perfumes ad' = map (fold ?S (sid # sids)) (perfumes ad)"
      using False r(2) p2 by simp
    have 3: "current_keys t ad' = filter (\<lambda>k. k \<notin> set (sid # sids) - {target}) (current_keys t ad)"
      unfolding r(3) k2 using False by (auto intro: filter_cong)
    have 4: "\<forall>k. current_get t ad' k
            = (if k \<in> set (sid # sids) - {target} then None else current_get t ad k)"
      using r(4) g2 False by auto
    have 5: "\<forall>t' k. t' \<noteq> t \<longrightarrow> current_keys t' ad' = current_keys t' ad
            \<and> current_get t' ad' k = current_get t' ad k"
      using r(5) o2 by simp
    from 1 2 3 4 5 show ?thesis by blast
  qed
qed

lemma keys_update_present:
  "k \<in> set (map fst al) \<Longrightarrow> map fst (AList.update k v al) = map fst al"
  by (simp add: update_keys)

lemma set_current_value_keys:
  "target \<in> set (current_keys t ad) \<Longrightarrow>
   current_keys t (set_current_value t target v ad) = current_keys t ad"
  by (cases t) (auto simp: set_current_value_def current_keys_def update_keys)

lemma set_current_value_get:
  "current_get t (set_current_value t target v ad) k =
     (if k = target then Some (kept_value t v) else current_get t ad k)"
  by (cases t) (auto simp: set_current_value_def current_get_def kept_value_def update_conv')

lemma set_current_value_other:
  "t' \<noteq> t \<Longrightarrow>
   current_keys t' (set_current_value t target v ad) = current_keys t' ad
   \<and> current_get t' (set_current_value t target v ad) k = current_get t' ad k"
  by (cases t; cases t') (auto simp: set_current_value_def current_keys_def current_get_def)

lemma set_current_value_perfumes:
  "perfumes (set_current_value t target v ad) = perfumes ad"
  by (cases t) (auto simp: set_current_value_def)

subsection \<open>Reference tables: merge\<close>

lemma refs_of_stamp: "refs_of t (p\<lparr>updated_at := x\<rparr>) = refs_of t p"
  by (cases t) (simp_all add: refs_of_def)

lemma hd_tl_distinct:
  assumes "2 \<le> length ids" "distinct ids"
  shows "ids ! 0 = hd ids" "set ids - {hd ids} = set (tl ids)" "hd ids \<notin> set (tl ids)"
    "hd ids \<in> set ids"
  using assms by (cases ids; auto)+

text \<open>
  C6, as amended: merging two or more distinct ids of the current table under a kept
  name (the target is the first id). The merge succeeds, and then
  \<^item> the ids a perfume holds for this table are the old ones with every non-target id
    replaced by the target; the events' purchase types likewise;
  \<^item> no perfume or event holds a non-target id any more, and one that held a non-target
    id holds the target;
  \<^item> a list of tags or outlets that held a non-target id is duplicate-free, in first-seen
    order; a list that held none is the old list, so it is duplicate-free if it was;
  \<^item> the references to the other tables are unchanged;
  \<^item> the target's entry holds the kept value, the non-target ids are gone from the
    table, and every other entry is as before, in the same order.
\<close>

theorem merge_rewrites_references:
  assumes len: "2 \<le> length ids" and dist: "distinct ids"
    and keys: "set ids \<subseteq> set (current_keys t ad)" and typed: "typed \<noteq> []"
  shows "\<exists>ad'. merge_selected t ids (Some typed) clock ad
                 = Inr (Merged (length ids) (strip typed), ad')
     \<and> length (perfumes ad') = length (perfumes ad)
     \<and> (\<forall>i < length (perfumes ad).
          refs_of t (perfumes ad' ! i) =
            (if (t = Tags \<or> t = Outlets)
                \<and> set (refs_of t (perfumes ad ! i)) \<inter> set (tl ids) \<noteq> {}
             then fromkeys (map (\<lambda>x. if x \<in> set (tl ids) then hd ids else x)
                              (refs_of t (perfumes ad ! i)))
             else map (\<lambda>x. if x \<in> set (tl ids) then hd ids else x)
                    (refs_of t (perfumes ad ! i)))
        \<and> set (refs_of t (perfumes ad' ! i)) \<inter> set (tl ids) = {}
        \<and> (set (refs_of t (perfumes ad ! i)) \<inter> set (tl ids) \<noteq> {}
             \<longrightarrow> hd ids \<in> set (refs_of t (perfumes ad' ! i)))
        \<and> ((t = Tags \<or> t = Outlets)
             \<and> (distinct (refs_of t (perfumes ad ! i))
                \<or> set (refs_of t (perfumes ad ! i)) \<inter> set (tl ids) \<noteq> {})
             \<longrightarrow> distinct (refs_of t (perfumes ad' ! i)))
        \<and> (\<forall>t'. t' \<noteq> t \<longrightarrow> refs_of t' (perfumes ad' ! i) = refs_of t' (perfumes ad ! i)))
     \<and> current_get t ad' (hd ids) = Some (kept_value t (strip typed))
     \<and> current_keys t ad' = filter (\<lambda>k. k \<notin> set (tl ids)) (current_keys t ad)
     \<and> (\<forall>k\<in>set (tl ids). current_get t ad' k = None)
     \<and> (\<forall>k. k \<notin> set ids \<longrightarrow> current_get t ad' k = current_get t ad k)"
proof -
  let ?target = "hd ids"
  let ?A = "set (tl ids)"
  let ?S = "\<lambda>sid p. if sid = ?target then p else rewrite_refs t sid ?target p"
  let ?sub = "\<lambda>x. if x \<in> ?A then ?target else x"
  let ?ad0 = "set_current_value t ?target (strip typed) ad"
  note ht = hd_tl_distinct [OF len dist]
  have tk: "?target \<in> set (current_keys t ad)" using ht(4) keys by auto
  have k0: "current_keys t ?ad0 = current_keys t ad"
    by (rule set_current_value_keys [OF tk])
  have pre: "\<forall>sid\<in>set ids. sid \<noteq> ?target \<longrightarrow> sid \<in> set (current_keys t ?ad0)"
    using keys k0 by auto
  from merge_loop_result [OF dist pre] obtain ad1 where r:
    "merge_loop t ?target ids ?ad0 = Inr ad1"
    "perfumes ad1 = map (fold ?S ids) (perfumes ?ad0)"
    "current_keys t ad1 = filter (\<lambda>k. k \<notin> set ids - {?target}) (current_keys t ?ad0)"
    "\<forall>k. current_get t ad1 k
          = (if k \<in> set ids - {?target} then None else current_get t ?ad0 k)"
    by blast
  define ad' where "ad' = save clock ad1"
  have m: "merge_selected t ids (Some typed) clock ad
             = Inr (Merged (length ids) (strip typed), ad')"
    using len typed r(1) ht(1) by (simp add: merge_selected_def Let_def ad'_def)
  have ps: "perfumes ad1 = map (fold ?S ids) (perfumes ad)"
    using r(2) by (simp add: set_current_value_perfumes)
  have l: "length (perfumes ad') = length (perfumes ad)"
    using ps by (simp add: ad'_def save_length)
  have stamped: "perfumes ad' ! i = (fold ?S ids (perfumes ad ! i))\<lparr>updated_at := clock i\<rparr>"
    if "i < length (perfumes ad)" for i
    using that ps save_nth [of i ad1 clock] by (simp add: ad'_def)
  have refs: "refs_of t (fold ?S ids p) =
     (if (t = Tags \<or> t = Outlets) \<and> set (refs_of t p) \<inter> ?A \<noteq> {}
      then fromkeys (map ?sub (refs_of t p)) else map ?sub (refs_of t p))" for p
    by (rule refs_after_merge [OF ht(3) ht(2) [symmetric]])
  have per: "refs_of t (perfumes ad' ! i) =
            (if (t = Tags \<or> t = Outlets) \<and> set (refs_of t (perfumes ad ! i)) \<inter> ?A \<noteq> {}
             then fromkeys (map ?sub (refs_of t (perfumes ad ! i)))
             else map ?sub (refs_of t (perfumes ad ! i)))
        \<and> set (refs_of t (perfumes ad' ! i)) \<inter> ?A = {}
        \<and> (set (refs_of t (perfumes ad ! i)) \<inter> ?A \<noteq> {}
             \<longrightarrow> ?target \<in> set (refs_of t (perfumes ad' ! i)))
        \<and> ((t = Tags \<or> t = Outlets)
             \<and> (distinct (refs_of t (perfumes ad ! i))
                \<or> set (refs_of t (perfumes ad ! i)) \<inter> ?A \<noteq> {})
             \<longrightarrow> distinct (refs_of t (perfumes ad' ! i)))
        \<and> (\<forall>t'. t' \<noteq> t \<longrightarrow> refs_of t' (perfumes ad' ! i) = refs_of t' (perfumes ad ! i))"
    if i: "i < length (perfumes ad)" for i
  proof -
    let ?p = "perfumes ad ! i"
    let ?L = "refs_of t ?p"
    have nth: "refs_of u (perfumes ad' ! i) = refs_of u (fold ?S ids ?p)" for u
      unfolding stamped [OF i] by (rule refs_of_stamp)
    have e: "refs_of t (perfumes ad' ! i) =
       (if (t = Tags \<or> t = Outlets) \<and> set ?L \<inter> ?A \<noteq> {}
        then fromkeys (map ?sub ?L) else map ?sub ?L)"
      unfolding nth by (rule refs)
    have s: "set (refs_of t (perfumes ad' ! i)) = ?sub ` set ?L"
      unfolding e by (simp add: set_fromkeys)
    have a: "set (refs_of t (perfumes ad' ! i)) \<inter> ?A = {}"
      unfolding s using ht(3) by auto
    have b: "set ?L \<inter> ?A \<noteq> {} \<longrightarrow> ?target \<in> set (refs_of t (perfumes ad' ! i))"
      unfolding s by auto
    have "set M \<inter> ?A = {} \<Longrightarrow> map ?sub M = M" for M
      by (induction M) auto
    then have same: "set ?L \<inter> ?A = {} \<Longrightarrow> map ?sub ?L = ?L" .
    have c: "(t = Tags \<or> t = Outlets)
             \<and> (distinct ?L \<or> set ?L \<inter> ?A \<noteq> {})
             \<longrightarrow> distinct (refs_of t (perfumes ad' ! i))"
      unfolding e using same by (auto simp: distinct_fromkeys)
    have d: "\<forall>t'. t' \<noteq> t \<longrightarrow> refs_of t' (perfumes ad' ! i) = refs_of t' ?p"
      unfolding nth by (simp add: refs_fold_other)
    from e a b c d show ?thesis by blast
  qed
  have g: "current_get t ad' k
          = (if k \<in> ?A then None
             else if k = ?target then Some (kept_value t (strip typed))
             else current_get t ad k)" for k
    using r(4) ht(2) by (simp add: set_current_value_get ad'_def save_get)
  have g1: "current_get t ad' ?target = Some (kept_value t (strip typed))"
    using g [of ?target] ht(3) by simp
  have g2: "\<forall>k\<in>?A. current_get t ad' k = None" using g by simp
  have g3: "\<forall>k. k \<notin> set ids \<longrightarrow> current_get t ad' k = current_get t ad k"
  proof (intro allI impI)
    fix k assume "k \<notin> set ids"
    then have "k \<notin> ?A" "k \<noteq> ?target" using ht(2) ht(4) by auto
    then show "current_get t ad' k = current_get t ad k" using g [of k] by simp
  qed
  have ks: "current_keys t ad' = filter (\<lambda>k. k \<notin> ?A) (current_keys t ad)"
    using r(3) k0 ht(2) by (simp add: ad'_def save_keys)
  from m l per g1 ks g2 g3 show ?thesis by blast
qed

theorem merge_rewrites_references_witness:
  "\<exists>ad'. merge_selected Tags [''t1'', ''t2''] (Some '' floral '') (\<lambda>i. 7) example_data
            = Inr (Merged 2 ''floral'', ad')
     \<and> tag_ids (perfumes ad' ! 0) = [''t1'', ''t3'']
     \<and> tag_ids (perfumes ad' ! 1) = [''t3'', ''t1'']
     \<and> brand_id (perfumes ad' ! 1) = ''idB''
     \<and> current_keys Tags ad' = [''t1'', ''t3'']
     \<and> current_get Tags ad' ''t1'' = Some (Inl ''floral'')
     \<and> current_get Tags ad' ''t2'' = None"
proof -
  let ?ids = "[''t1'', ''t2'']"
  have len: "2 \<le> length ?ids" by simp
  have dist: "distinct ?ids" by simp
  have k: "current_keys Tags example_data = [''t1'', ''t2'', ''t3'']"
    by (simp add: current_keys_def example_data_def new_app_data_def)
  have keys: "set ?ids \<subseteq> set (current_keys Tags example_data)" by (simp add: k)
  have typed: "'' floral '' \<noteq> []" by simp
  have st: "strip '' floral '' = ''floral''" by (simp add: strip_def is_space_def)
  have n: "length (perfumes example_data) = 2"
    by (simp add: example_data_def new_app_data_def)
  have r0: "refs_of Tags (perfumes example_data ! 0) = [''t1'', ''t2'', ''t3'']"
    by (simp add: refs_of_def example_data_def new_app_data_def new_perfume_def)
  have r1: "refs_of Tags (perfumes example_data ! Suc 0) = [''t3'', ''t2'']"
    by (simp add: refs_of_def example_data_def new_app_data_def new_perfume_def)
  have b1: "refs_of Brands (perfumes example_data ! Suc 0) = [''idB'']"
    by (simp add: refs_of_def example_data_def new_app_data_def new_perfume_def)
  have f0: "fromkeys [''t1'', ''t1'', ''t3''] = [''t1'', ''t3'']"
    by (simp add: fromkeys_def)
  have f1: "fromkeys [''t3'', ''t1''] = [''t3'', ''t1'']"
    by (simp add: fromkeys_def)
  from merge_rewrites_references [OF len dist keys typed, of "\<lambda>i. 7"]
  obtain ad' where
    m: "merge_selected Tags ?ids (Some '' floral '') (\<lambda>i. 7) example_data
          = Inr (Merged (length ?ids) (strip '' floral ''), ad')"
    and per: "\<forall>i < length (perfumes example_data).
          refs_of Tags (perfumes ad' ! i) =
            (if (Tags = Tags \<or> Tags = Outlets)
                \<and> set (refs_of Tags (perfumes example_data ! i)) \<inter> set (tl ?ids) \<noteq> {}
             then fromkeys (map (\<lambda>x. if x \<in> set (tl ?ids) then hd ?ids else x)
                              (refs_of Tags (perfumes example_data ! i)))
             else map (\<lambda>x. if x \<in> set (tl ?ids) then hd ?ids else x)
                    (refs_of Tags (perfumes example_data ! i)))
        \<and> set (refs_of Tags (perfumes ad' ! i)) \<inter> set (tl ?ids) = {}
        \<and> (set (refs_of Tags (perfumes example_data ! i)) \<inter> set (tl ?ids) \<noteq> {}
             \<longrightarrow> hd ?ids \<in> set (refs_of Tags (perfumes ad' ! i)))
        \<and> ((Tags = Tags \<or> Tags = Outlets)
             \<and> (distinct (refs_of Tags (perfumes example_data ! i))
                \<or> set (refs_of Tags (perfumes example_data ! i)) \<inter> set (tl ?ids) \<noteq> {})
             \<longrightarrow> distinct (refs_of Tags (perfumes ad' ! i)))
        \<and> (\<forall>t'. t' \<noteq> Tags \<longrightarrow> refs_of t' (perfumes ad' ! i)
                                 = refs_of t' (perfumes example_data ! i))"
    and g1: "current_get Tags ad' (hd ?ids) = Some (kept_value Tags (strip '' floral ''))"
    and ks: "current_keys Tags ad' = filter (\<lambda>k. k \<notin> set (tl ?ids)) (current_keys Tags example_data)"
    and g2: "\<forall>k\<in>set (tl ?ids). current_get Tags ad' k = None"
    by (elim exE conjE)
  have p0: "refs_of Tags (perfumes ad' ! 0) = [''t1'', ''t3'']"
    using per [rule_format, of 0] by (simp add: n r0 f0)
  have p1: "refs_of Tags (perfumes ad' ! Suc 0) = [''t3'', ''t1'']"
    using per [rule_format, of "Suc 0"] by (simp add: n r1 f1)
  have q1: "refs_of Brands (perfumes ad' ! Suc 0) = [''idB'']"
    using per [rule_format, of "Suc 0"] by (simp add: n b1)
  have 1: "merge_selected Tags ?ids (Some '' floral '') (\<lambda>i. 7) example_data
            = Inr (Merged 2 ''floral'', ad')"
    using m by (simp add: st)
  have 2: "tag_ids (perfumes ad' ! 0) = [''t1'', ''t3'']" using p0 by (simp add: refs_of_def)
  have 3: "tag_ids (perfumes ad' ! 1) = [''t3'', ''t1'']" using p1 by (simp add: refs_of_def)
  have 4: "brand_id (perfumes ad' ! 1) = ''idB''" using q1 by (simp add: refs_of_def)
  have 5: "current_keys Tags ad' = [''t1'', ''t3'']" using ks by (simp add: k)
  have 6: "current_get Tags ad' ''t1'' = Some (Inl ''floral'')"
    using g1 by (simp add: st kept_value_def)
  have 7: "current_get Tags ad' ''t2'' = None" using g2 by simp
  from 1 2 3 4 5 6 7 show ?thesis by blast
qed

text \<open>
  C6: the specification has every list of tags duplicate-free after a merge. A perfume whose tags
  are t3, t3 holds neither of the merged ids t1 and t2, so the merge leaves its list as
  it is.
\<close>

theorem merge_leaves_other_lists_counterexample:
  "\<exists>out ad'.
     merge_selected Tags [''t1'', ''t2''] (Some ''floral'') (\<lambda>i. 7)
       (example_data\<lparr>perfumes := [(new_perfume ''p3'' ''Eau'')\<lparr>tag_ids := [''t3'', ''t3'']\<rparr>]\<rparr>)
       = Inr (out, ad')
     \<and> \<not> distinct (tag_ids (perfumes ad' ! 0))"
  by (simp add: merge_selected_def example_data_def new_app_data_def new_perfume_def
      set_current_value_def del_current_def current_keys_def rewrite_refs_def
      rewrite_id_list_def save_def Let_def)

end
